theory Spec2Isabelle
  imports Main
begin

section \<open>FancyTracker (Firefox): the aggregation service, the popup storage and the page hook\<close>

text \<open>
  The development embeds three programs of the repository:
  \<^item> the background script (\<^verbatim>\<open>src/unnamed/part_000\<close>): per-tab record store, identity keys,
    block matching, tab lifecycle;
  \<^item> the popup's storage class (\<^verbatim>\<open>src/unnamed/part_002\<close>): block lists, export and import;
  \<^item> the page hook (\<^verbatim>\<open>src/firefox/main.js\<close>): the replaced
    \<^verbatim>\<open>Window.prototype.addEventListener\<close>.

  JavaScript strings are modelled as \<^typ>\<open>string\<close>: one \<^typ>\<open>char\<close> per UTF-16 code unit,
  for code units below 256.  A property that may be \<^verbatim>\<open>undefined\<close> is an \<^typ>\<open>'a option\<close>.
  Every handler of the background script awaits the already resolved load promise and then
  runs to completion; it is modelled as one atomic transition on the state.
\<close>

subsection \<open>Strings and the regular expressions the source writes out\<close>

text \<open>Truthiness of an optional string: \<^verbatim>\<open>undefined\<close> and \<^verbatim>\<open>''\<close> are falsy.\<close>

definition truthy :: "string option \<Rightarrow> bool" where
  "truthy v = (case v of None \<Rightarrow> False | Some s \<Rightarrow> s \<noteq> [])"

text \<open>\<^verbatim>\<open>v || ''\<close>\<close>

definition or_empty :: "string option \<Rightarrow> string" where
  "or_empty v = (case v of None \<Rightarrow> [] | Some s \<Rightarrow> s)"

text \<open>\<^verbatim>\<open>s.startsWith(p)\<close>\<close>

fun starts_with :: "string \<Rightarrow> string \<Rightarrow> bool" where
  "starts_with [] s = True"
| "starts_with (p # ps) [] = False"
| "starts_with (p # ps) (c # cs) = (p = c \<and> starts_with ps cs)"

text \<open>\<^verbatim>\<open>s.includes(sub)\<close>\<close>

fun includes_str :: "string \<Rightarrow> string \<Rightarrow> bool" where
  "includes_str sub [] = (sub = [])"
| "includes_str sub (c # cs) = (starts_with sub (c # cs) \<or> includes_str sub cs)"

text \<open>\<^verbatim>\<open>\d\<close> is the class \<^verbatim>\<open>[0-9]\<close>.\<close>

definition is_digit :: "char \<Rightarrow> bool" where
  "is_digit c = (48 \<le> (of_char c :: nat) \<and> (of_char c :: nat) \<le> 57)"

text \<open>\<^verbatim>\<open>\s\<close> on code units below 256: TAB, LF, VT, FF, CR, SPACE and NBSP.\<close>

definition is_space :: "char \<Rightarrow> bool" where
  "is_space c = ((of_char c :: nat) \<in> {9, 10, 11, 12, 13, 32, 160})"

text \<open>
  One attempt of \<^verbatim>\<open>/\(https?:\/\/[^)]+\)/\<close> at the start of the text.  The pattern has no
  choice to revisit: \<^verbatim>\<open>s?\<close> is followed by a colon and \<^verbatim>\<open>[^)]+\<close> by the character it excludes.
\<close>

definition scheme_at :: "string \<Rightarrow> (string \<times> string) option" where
  "scheme_at s =
     (if starts_with ''https://'' s then Some (''https://'', drop 8 s)
      else if starts_with ''http://'' s then Some (''http://'', drop 7 s)
      else None)"

definition paren_url_at :: "string \<Rightarrow> string option" where
  "paren_url_at s =
     (case s of
        [] \<Rightarrow> None
      | c # r \<Rightarrow>
          if c \<noteq> CHR ''('' then None
          else (case scheme_at r of
                  None \<Rightarrow> None
                | Some (sch, rest) \<Rightarrow>
                    (let body = takeWhile (\<lambda>x. x \<noteq> CHR '')'') rest;
                         after = dropWhile (\<lambda>x. x \<noteq> CHR '')'') rest
                     in if body \<noteq> [] \<and> after \<noteq> [] then Some (''('' @ sch @ body @ '')'')
                        else None)))"

text \<open>One attempt of \<^verbatim>\<open>/https?:\/\/[^\s\)]+/\<close> at the start of the text.\<close>

definition bare_url_at :: "string \<Rightarrow> string option" where
  "bare_url_at s =
     (case scheme_at s of
        None \<Rightarrow> None
      | Some (sch, rest) \<Rightarrow>
          (let body = takeWhile (\<lambda>x. \<not> is_space x \<and> x \<noteq> CHR '')'') rest
           in if body \<noteq> [] then Some (sch @ body) else None))"

text \<open>
  \<^verbatim>\<open>line.match(re)\<close> with the \<^verbatim>\<open>g\<close> flag: every match, leftmost first, the search resuming
  after each match.  The first argument counts the characters of the current match still
  to be skipped.  An empty result stands for \<^verbatim>\<open>null\<close>.
\<close>

fun match_all :: "(string \<Rightarrow> string option) \<Rightarrow> nat \<Rightarrow> string \<Rightarrow> string list" where
  "match_all at k [] = []"
| "match_all at (Suc k) (c # cs) = match_all at k cs"
| "match_all at 0 (c # cs) =
     (case at (c # cs) of
        Some m \<Rightarrow> m # match_all at (length m - 1) cs
      | None \<Rightarrow> match_all at 0 cs)"

text \<open>
  A trailing \<^verbatim>\<open>:\d+\<close>: the text without it, or \<open>None\<close> when the text does not end so.
\<close>

definition strip_num_suffix :: "string \<Rightarrow> string option" where
  "strip_num_suffix s =
     (let r = rev s; ds = takeWhile is_digit r; rest = dropWhile is_digit r
      in case rest of
           [] \<Rightarrow> None
         | c # pre \<Rightarrow> if ds \<noteq> [] \<and> c = CHR '':'' then Some (rev pre) else None)"

text \<open>\<^verbatim>\<open>url.replace(/:\d+:\d+$/, '')\<close>\<close>

definition strip_line_col :: "string \<Rightarrow> string" where
  "strip_line_col s =
     (case strip_num_suffix s of
        None \<Rightarrow> s
      | Some s1 \<Rightarrow> (case strip_num_suffix s1 of None \<Rightarrow> s | Some s2 \<Rightarrow> s2))"

text \<open>\<^verbatim>\<open>url.replace(/:\d+$/, '')\<close>\<close>

definition strip_line :: "string \<Rightarrow> string" where
  "strip_line s = (case strip_num_suffix s of None \<Rightarrow> s | Some s1 \<Rightarrow> s1)"

subsection \<open>The platform: URL parsing and pattern compilation\<close>

text \<open>
  \<^verbatim>\<open>new URL(url)\<close> and \<^verbatim>\<open>new RegExp(pattern, 'i')\<close> are the browser's, not the repository's.
  The code reads three components of a parsed URL; a parse that throws is \<open>None\<close>.
\<close>

record url =
  protocol :: string
  hostname :: string
  pathname :: string

type_synonym url_parser = "string \<Rightarrow> url option"

type_synonym regexp_ctor = "string \<Rightarrow> (string \<Rightarrow> bool) option"

text \<open>
  The part of the URL Standard's parser that the development evaluates: an \<^verbatim>\<open>http\<close> or
  \<^verbatim>\<open>https\<close> URL whose host is a dotted name of lower-case letters and digits with a last
  label that starts with a letter, with no credentials and no port, whose path uses letters,
  digits, \<^verbatim>\<open>/ . _ -\<close> and has no \<^verbatim>\<open>.\<close> or \<^verbatim>\<open>..\<close> segment.  On such an input the parser
  changes nothing: the host is the authority, the path is the text up to the first \<^verbatim>\<open>?\<close> or
  \<^verbatim>\<open>#\<close> (\<^verbatim>\<open>/\<close> when empty).  Every other input is left to the parameter of \<open>URL_parse\<close>.
\<close>

definition is_lower :: "char \<Rightarrow> bool" where
  "is_lower c = (97 \<le> (of_char c :: nat) \<and> (of_char c :: nat) \<le> 122)"

definition is_upper :: "char \<Rightarrow> bool" where
  "is_upper c = (65 \<le> (of_char c :: nat) \<and> (of_char c :: nat) \<le> 90)"

text \<open>Splitting at a separator, as \<^verbatim>\<open>s.split(sep)\<close> with a one-character separator.\<close>

fun split_on :: "char \<Rightarrow> string \<Rightarrow> string list" where
  "split_on sep [] = [[]]"
| "split_on sep (c # cs) =
     (case split_on sep cs of
        [] \<Rightarrow> [[c]]
      | w # ws \<Rightarrow> if c = sep then [] # w # ws else (c # w) # ws)"

definition simple_host :: "string \<Rightarrow> bool" where
  "simple_host h =
     (let labels = split_on (CHR ''.'') h
      in list_all (\<lambda>l. l \<noteq> [] \<and> list_all (\<lambda>c. is_lower c \<or> is_digit c) l) labels
         \<and> (case last labels of [] \<Rightarrow> False | c # _ \<Rightarrow> is_lower c))"

definition simple_path :: "string \<Rightarrow> bool" where
  "simple_path p =
     (p = [] \<or>
      (hd p = CHR ''/''
       \<and> list_all (\<lambda>c. is_lower c \<or> is_upper c \<or> is_digit c
                        \<or> c = CHR ''/'' \<or> c = CHR ''.'' \<or> c = CHR ''_'' \<or> c = CHR ''-'') p
       \<and> list_all (\<lambda>seg. seg \<noteq> ''.'' \<and> seg \<noteq> ''..'') (split_on (CHR ''/'') p)))"

definition is_delim :: "char \<Rightarrow> bool" where
  "is_delim c = (c = CHR ''/'' \<or> c = CHR ''?'' \<or> c = CHR ''#'')"

definition URL_simple :: url_parser where
  "URL_simple u =
     (case scheme_at u of
        None \<Rightarrow> None
      | Some (sch, rest) \<Rightarrow>
          (let host = takeWhile (\<lambda>c. \<not> is_delim c) rest;
               tail = dropWhile (\<lambda>c. \<not> is_delim c) rest;
               path = takeWhile (\<lambda>c. c \<noteq> CHR ''?'' \<and> c \<noteq> CHR ''#'') tail
           in if simple_host host \<and> simple_path path
              then Some \<lparr>protocol = butlast (butlast sch), hostname = host,
                         pathname = (if path = [] then ''/'' else path)\<rparr>
              else None))"

definition URL_parse :: "url_parser \<Rightarrow> url_parser" where
  "URL_parse other u = (case URL_simple u of Some p \<Rightarrow> Some p | None \<Rightarrow> other u)"


text \<open>
  The part of \<^verbatim>\<open>new RegExp(pattern, 'i')\<close> that the development evaluates: a pattern of
  printable ASCII characters none of which is a syntax character
  (\<^verbatim>\<open>^ $ \ . * + ? ( ) [ ] { } |\<close>) compiles, and \<^verbatim>\<open>test\<close> searches the text for the pattern,
  letters compared without case.  Every other pattern is left to the parameter of
  \<open>RegExp_i\<close>; \<open>None\<close> is the SyntaxError of an invalid pattern.
\<close>

definition is_syntax_char :: "char \<Rightarrow> bool" where
  "is_syntax_char c = (c \<in> set ''^$.*+?()[]{}|'' \<or> c = CHR 0x5C)"

definition is_plain_char :: "char \<Rightarrow> bool" where
  "is_plain_char c =
     (32 \<le> (of_char c :: nat) \<and> (of_char c :: nat) \<le> 126 \<and> \<not> is_syntax_char c)"

definition to_upper :: "char \<Rightarrow> char" where
  "to_upper c = (if is_lower c then char_of ((of_char c :: nat) - 32) else c)"

definition RegExp_plain :: regexp_ctor where
  "RegExp_plain pat =
     (if list_all is_plain_char pat
      then Some (\<lambda>text. includes_str (map to_upper pat) (map to_upper text))
      else None)"

definition RegExp_i :: "regexp_ctor \<Rightarrow> regexp_ctor" where
  "RegExp_i other pat = (case RegExp_plain pat of Some t \<Rightarrow> Some t | None \<Rightarrow> other pat)"

record platform =
  new_URL :: url_parser
  new_RegExp :: regexp_ctor
  tab_exists :: "int \<Rightarrow> bool"
  tab_url :: "int \<Rightarrow> string"
  log_url :: string
  now :: nat

subsection \<open>Identity keys (background script)\<close>

text \<open>
  \<^verbatim>\<open>cleanUrl\<close>, the same text in the background script and in the popup's storage class.
\<close>

definition cleanUrl :: "url_parser \<Rightarrow> string \<Rightarrow> string" where
  "cleanUrl parse u =
     (if u = [] then u
      else (case parse u of
              Some p \<Rightarrow> protocol p @ ''//'' @ hostname p @ pathname p
            | None \<Rightarrow> takeWhile (\<lambda>c. c \<noteq> CHR ''#'') (takeWhile (\<lambda>c. c \<noteq> CHR ''?'') u)))"




text \<open>
  An inbound message (\<^verbatim>\<open>msg\<close>).  A stored record is the message object itself, with
  \<^verbatim>\<open>parent_url\<close> set by the handler.  \<^verbatim>\<open>action\<close> and \<^verbatim>\<open>enabled\<close> belong to the popup's
  settings message.
\<close>

record message =
  action :: "string option"
  enabled :: bool
  listener :: "string option"
  stack :: "string option"
  fullstack :: "string list option"
  hops :: "string option"
  domain :: "string option"
  window :: "string option"
  parent_url :: "string option"
  pushState :: bool
  changePage :: bool
  log :: "string option"

text \<open>
  The loop body shared by the two \<^verbatim>\<open>for (const match of ...)\<close> loops of
  \<^verbatim>\<open>extractJsUrlFromStack\<close>: strip the line and column, clean, return the first result that is
  not empty.
\<close>

fun first_clean_url :: "url_parser \<Rightarrow> string list \<Rightarrow> string option" where
  "first_clean_url parse [] = None"
| "first_clean_url parse (m # ms) =
     (let u = cleanUrl parse (strip_line (strip_line_col m))
      in if u \<noteq> [] then Some u else first_clean_url parse ms)"

text \<open>\<^verbatim>\<open>match.slice(1, -1)\<close>\<close>

definition slice_1_m1 :: "string \<Rightarrow> string" where
  "slice_1_m1 m = butlast (tl m)"

fun extract_from_lines :: "url_parser \<Rightarrow> string list \<Rightarrow> string option" where
  "extract_from_lines parse [] = None"
| "extract_from_lines parse (line # lines) =
     (case first_clean_url parse (map slice_1_m1 (match_all paren_url_at 0 line)) of
        Some u \<Rightarrow> Some u
      | None \<Rightarrow>
          (case first_clean_url parse (match_all bare_url_at 0 line) of
             Some u \<Rightarrow> Some u
           | None \<Rightarrow> extract_from_lines parse lines))"

text \<open>\<^verbatim>\<open>fullstack || (stack ? [stack] : [])\<close>: an array, even an empty one, is truthy.\<close>

definition stackLines :: "string option \<Rightarrow> string list option \<Rightarrow> string list" where
  "stackLines st full =
     (case full of
        Some ls \<Rightarrow> ls
      | None \<Rightarrow> (if truthy st then [or_empty st] else []))"

definition extractJsUrlFromStack :: "url_parser \<Rightarrow> string option \<Rightarrow> string list option \<Rightarrow> string option" where
  "extractJsUrlFromStack parse st full = extract_from_lines parse (stackLines st full)"

definition generateListenerKey :: "url_parser \<Rightarrow> message \<Rightarrow> string" where
  "generateListenerKey parse l =
     (let jsUrl = or_empty (extractJsUrlFromStack parse (stack l) (fullstack l));
          hops' = or_empty (hops l);
          domain' = or_empty (domain l);
          listenerCode = or_empty (listener l)
      in jsUrl @ ''|'' @ hops' @ ''|'' @ domain' @ ''|'' @ listenerCode)"

subsection \<open>The state of the background script\<close>

text \<open>
  \<^verbatim>\<open>cachedPopupData.listeners\<close> holds a reference: either the object literal \<^verbatim>\<open>{}\<close> the cache
  was created with, or the global \<^verbatim>\<open>tab_listeners\<close> object itself, whose later changes are
  seen through the cache.
\<close>

datatype listeners_ref = EmptyObject | TabListenersObject

record cache =
  listeners_of_cache :: listeners_ref
  currentTabId :: "int option"
  currentUrl :: string
  lastUpdate :: nat

text \<open>
  What the script does to the outside, in the order it does it: save requests, log posts,
  badge texts, port messages, responses, the stored dedupe flag, the pattern compiler's
  warnings and the message handler's log line.  Its other console lines and the badge colour
  are not recorded.
\<close>

datatype effect =
    DebouncedSave
  | HttpPost string message
  | BadgeText int nat
  | PortPost nat
  | SendResponse bool
  | StoreDedupe bool
  | ConsoleWarn string
  | ConsoleLog string

record state =
  tab_listeners :: "int \<rightharpoonup> message list"
  tab_listener_keys :: "int \<rightharpoonup> string set"
  tab_push :: "int \<rightharpoonup> bool"
  tab_lasturl :: "int \<rightharpoonup> bool"
  selectedId :: int
  connectedPorts :: "nat list"
  dedupeEnabled :: bool
  blockedListeners :: "string list"
  blockedUrls :: "string list"
  blockedRegex :: "string list"
  compiledRegex :: "(string \<times> (string \<Rightarrow> bool)) list"
  cachedPopupData :: cache
  trace :: "effect list"

definition emit :: "effect list \<Rightarrow> state \<Rightarrow> state" where
  "emit es s = s\<lparr>trace := trace s @ es\<rparr>"

text \<open>The listeners a reader of the cache sees.\<close>

definition cache_listeners :: "state \<Rightarrow> int \<rightharpoonup> message list" where
  "cache_listeners s =
     (case listeners_of_cache (cachedPopupData s) of
        EmptyObject \<Rightarrow> Map.empty
      | TabListenersObject \<Rightarrow> tab_listeners s)"

definition empty_cache :: cache where
  "empty_cache = \<lparr>listeners_of_cache = EmptyObject, currentTabId = None, currentUrl = [], lastUpdate = 0\<rparr>"

text \<open>The script as loaded, before any event: the globals' initial values.\<close>

definition initial_state :: state where
  "initial_state =
     \<lparr>tab_listeners = Map.empty, tab_listener_keys = Map.empty, tab_push = Map.empty,
      tab_lasturl = Map.empty, selectedId = -1, connectedPorts = [], dedupeEnabled = True,
      blockedListeners = [], blockedUrls = [], blockedRegex = [], compiledRegex = [],
      cachedPopupData = empty_cache, trace = []\<rparr>"

subsection \<open>Block matching (background script)\<close>

definition EXTENSION_BLACKLIST :: "string list" where
  "EXTENSION_BLACKLIST = [''wappalyzer'', ''domlogger'']"

text \<open>
  \<^verbatim>\<open>isFromExtension(listener.listener, listener.stack)\<close>: \<^verbatim>\<open>toString\<close> of \<^verbatim>\<open>undefined\<close>
  throws inside the \<^verbatim>\<open>try\<close>, and the function returns false.
\<close>

definition isFromExtension :: "string option \<Rightarrow> string option \<Rightarrow> bool" where
  "isFromExtension code st =
     (case code of
        None \<Rightarrow> False
      | Some c \<Rightarrow> list_ex (\<lambda>b. includes_str b (c @ '' '' @ or_empty st)) EXTENSION_BLACKLIST)"

text \<open>
  The loop of \<^verbatim>\<open>compileRegexPatterns\<close>: a pattern whose compilation throws is warned about
  and left out.
\<close>

fun compile_patterns :: "regexp_ctor \<Rightarrow> string list \<Rightarrow> (string \<times> (string \<Rightarrow> bool)) list" where
  "compile_patterns re [] = []"
| "compile_patterns re (p # ps) =
     (case re p of
        Some t \<Rightarrow> (p, t) # compile_patterns re ps
      | None \<Rightarrow> compile_patterns re ps)"

fun compile_warnings :: "regexp_ctor \<Rightarrow> string list \<Rightarrow> effect list" where
  "compile_warnings re [] = []"
| "compile_warnings re (p # ps) =
     (case re p of
        Some t \<Rightarrow> compile_warnings re ps
      | None \<Rightarrow> ConsoleWarn p # compile_warnings re ps)"

definition compileRegexPatterns :: "platform \<Rightarrow> state \<Rightarrow> state" where
  "compileRegexPatterns P s =
     emit (compile_warnings (new_RegExp P) (blockedRegex s))
       (s\<lparr>compiledRegex := compile_patterns (new_RegExp P) (blockedRegex s)\<rparr>)"

fun test_patterns :: "(string \<times> (string \<Rightarrow> bool)) list \<Rightarrow> string \<Rightarrow> bool" where
  "test_patterns [] code = False"
| "test_patterns ((p, t) # cs) code = (if t code then True else test_patterns cs code)"

definition isListenerMatchedByRegex :: "state \<Rightarrow> message \<Rightarrow> bool" where
  "isListenerMatchedByRegex s l =
     (if \<not> truthy (listener l) \<or> length (compiledRegex s) = 0 then False
      else test_patterns (compiledRegex s) (or_empty (listener l)))"

text \<open>\<^verbatim>\<open>list.includes(v)\<close> for a value that may be \<^verbatim>\<open>undefined\<close>, on a list of strings.\<close>

definition includes_opt :: "string list \<Rightarrow> string option \<Rightarrow> bool" where
  "includes_opt xs v = (case v of None \<Rightarrow> False | Some x \<Rightarrow> x \<in> set xs)"

definition isListenerBlocked :: "platform \<Rightarrow> state \<Rightarrow> message \<Rightarrow> bool" where
  "isListenerBlocked P s l =
     (if includes_opt (blockedListeners s) (listener l) then True
      else (let jsUrl = extractJsUrlFromStack (new_URL P) (stack l) (fullstack l)
            in if truthy jsUrl \<and> includes_opt (blockedUrls s) jsUrl then True
               else if isListenerMatchedByRegex s l then True
               else False))"

subsection \<open>Cache, badge, notification and logging (background script)\<close>

text \<open>
  \<^verbatim>\<open>updateCachedData\<close>: \<^verbatim>\<open>selectedId && selectedId > 0\<close>; a failing \<^verbatim>\<open>tabs.get\<close> leaves
  \<^verbatim>\<open>'Unknown URL'\<close>.
\<close>

definition updateCachedData :: "platform \<Rightarrow> state \<Rightarrow> state" where
  "updateCachedData P s =
     (if selectedId s \<noteq> 0 \<and> selectedId s > 0
      then s\<lparr>cachedPopupData :=
               \<lparr>listeners_of_cache = TabListenersObject,
                currentTabId = Some (selectedId s),
                currentUrl = (if tab_exists P (selectedId s) then tab_url P (selectedId s)
                              else ''Unknown URL''),
                lastUpdate = now P\<rparr>\<rparr>
      else s)"

text \<open>\<^verbatim>\<open>persistentState.debouncedSave()\<close>: the request is recorded, the timer is not modelled.\<close>

definition debouncedSave :: "state \<Rightarrow> state" where
  "debouncedSave s = emit [DebouncedSave] s"

text \<open>
  \<^verbatim>\<open>refreshCount\<close>: the badge shows the listeners of the selected tab that are not blocked;
  when the tab is gone (\<^verbatim>\<open>tabs.get\<close> rejects) its entries are deleted.
\<close>

definition activeCount :: "platform \<Rightarrow> state \<Rightarrow> nat" where
  "activeCount P s =
     (case tab_listeners s (selectedId s) of
        None \<Rightarrow> 0
      | Some ls \<Rightarrow> length (filter (\<lambda>l. \<not> isListenerBlocked P s l) ls))"

definition refreshCount :: "platform \<Rightarrow> state \<Rightarrow> state" where
  "refreshCount P s =
     (if selectedId s > 0
      then (if tab_exists P (selectedId s)
            then emit [BadgeText (selectedId s) (activeCount P s)] s
            else debouncedSave
                   (s\<lparr>tab_listeners := (tab_listeners s)(selectedId s := None),
                      tab_listener_keys := (tab_listener_keys s)(selectedId s := None),
                      tab_lasturl := (tab_lasturl s)(selectedId s := None)\<rparr>))
      else s)"

text \<open>\<^verbatim>\<open>notifyPopups\<close>: one message to every connected port, and the cache refreshed.\<close>

definition notifyPopups :: "platform \<Rightarrow> state \<Rightarrow> state" where
  "notifyPopups P s = updateCachedData P (emit (map PortPost (connectedPorts s)) s)"

text \<open>
  \<^verbatim>\<open>logListener\<close>: nothing is sent unless a log URL is stored
  (\<^verbatim>\<open>if (!log_url || !log_url.length) return\<close>).
\<close>

definition logListener :: "platform \<Rightarrow> message \<Rightarrow> state \<Rightarrow> state" where
  "logListener P l s = (if log_url P = [] then s else emit [HttpPost (log_url P) l] s)"

subsection \<open>The per-tab store (background script)\<close>

text \<open>
  \<^verbatim>\<open>isDuplicateListener\<close> creates the tab's key set when it is missing, so it returns the
  state as well.
\<close>

definition ensure_keys :: "int \<Rightarrow> state \<Rightarrow> state" where
  "ensure_keys tabId s =
     (if tab_listener_keys s tabId = None
      then s\<lparr>tab_listener_keys := (tab_listener_keys s)(tabId \<mapsto> {})\<rparr>
      else s)"

definition keys_of :: "state \<Rightarrow> int \<Rightarrow> string set" where
  "keys_of s tabId = (case tab_listener_keys s tabId of None \<Rightarrow> {} | Some ks \<Rightarrow> ks)"

definition records_of :: "state \<Rightarrow> int \<Rightarrow> message list" where
  "records_of s tabId = (case tab_listeners s tabId of None \<Rightarrow> [] | Some ls \<Rightarrow> ls)"

definition isDuplicateListener :: "platform \<Rightarrow> message \<Rightarrow> int \<Rightarrow> state \<Rightarrow> bool \<times> state" where
  "isDuplicateListener P newListener tabId s =
     (if \<not> dedupeEnabled s then (False, s)
      else (let s' = ensure_keys tabId s;
                key = generateListenerKey (new_URL P) newListener
            in (key \<in> keys_of s' tabId, s')))"

definition addListenerKey :: "platform \<Rightarrow> message \<Rightarrow> int \<Rightarrow> state \<Rightarrow> state" where
  "addListenerKey P l tabId s =
     (if \<not> dedupeEnabled s then s
      else (let s' = ensure_keys tabId s;
                key = generateListenerKey (new_URL P) l
            in s'\<lparr>tab_listener_keys := (tab_listener_keys s')(tabId \<mapsto> insert key (keys_of s' tabId))\<rparr>))"

text \<open>\<^verbatim>\<open>tab_listeners[tabId].push(listener)\<close>\<close>

definition push_listener :: "int \<Rightarrow> message \<Rightarrow> state \<Rightarrow> state" where
  "push_listener tabId l s = s\<lparr>tab_listeners := (tab_listeners s)(tabId \<mapsto> records_of s tabId @ [l])\<rparr>"

definition addListener :: "platform \<Rightarrow> int \<Rightarrow> message \<Rightarrow> state \<Rightarrow> bool \<times> state" where
  "addListener P tabId l s =
     (if isFromExtension (listener l) (stack l) then (False, s)
      else (let s1 = (if tab_listeners s tabId = None
                      then s\<lparr>tab_listeners := (tab_listeners s)(tabId \<mapsto> []),
                             tab_listener_keys := (tab_listener_keys s)(tabId \<mapsto> {})\<rparr>
                      else s);
                (dup, s2) = isDuplicateListener P l tabId s1
            in if \<not> dup
               then (let s3 = push_listener tabId l s2;
                         s4 = addListenerKey P l tabId s3;
                         s5 = debouncedSave s4;
                         s6 = (if \<not> isListenerBlocked P s5 l then logListener P l s5 else s5)
                     in (True, s6))
               else (False, s2)))"

definition clearListeners :: "int \<Rightarrow> state \<Rightarrow> bool \<times> state" where
  "clearListeners tabId s =
     (let hadListeners = (case tab_listeners s tabId of None \<Rightarrow> False | Some ls \<Rightarrow> length ls > 0);
          s1 = s\<lparr>tab_listeners := (tab_listeners s)(tabId \<mapsto> [])\<rparr>;
          s2 = (if tab_listener_keys s1 tabId \<noteq> None
                then s1\<lparr>tab_listener_keys := (tab_listener_keys s1)(tabId \<mapsto> {})\<rparr>
                else s1)
      in (hadListeners, debouncedSave s2))"

subsection \<open>The event handlers (background script)\<close>

definition NATIVE_CODE :: string where
  "NATIVE_CODE = ''function () { [native code] }''"

text \<open>
  The \<^verbatim>\<open>runtime.onMessage\<close> handler.  \<open>sender\<close> is the sending tab's id and URL, \<open>None\<close> when
  \<^verbatim>\<open>sender\<close> or \<^verbatim>\<open>sender.tab\<close> is missing.
\<close>

definition onMessage :: "platform \<Rightarrow> message \<Rightarrow> (int \<times> string) option \<Rightarrow> state \<Rightarrow> state" where
  "onMessage P msg sender s =
     (if action msg = Some ''updateDedupeSetting''
      then (let s1 = emit [StoreDedupe (enabled msg)] (s\<lparr>dedupeEnabled := enabled msg\<rparr>);
                s2 = (if \<not> dedupeEnabled s1
                      then debouncedSave
                             (s1\<lparr>tab_listener_keys := map_option (\<lambda>ks. {}) \<circ> tab_listener_keys s1\<rparr>)
                      else s1);
                s3 = updateCachedData P s2;
                s4 = refreshCount P s3
            in emit [SendResponse True] s4)
      else (case sender of
              None \<Rightarrow> emit [SendResponse False] s
            | Some (tabId, url) \<Rightarrow>
                if truthy (listener msg) \<and> listener msg = Some NATIVE_CODE
                then emit [SendResponse True] s
                else (let (added, s1) =
                            (if truthy (listener msg)
                             then addListener P tabId (msg\<lparr>parent_url := Some url\<rparr>) s
                             else (False, s));
                          s2 = (if pushState msg then s1\<lparr>tab_push := (tab_push s1)(tabId \<mapsto> True)\<rparr> else s1);
                          s3 = (if changePage msg then s2\<lparr>tab_lasturl := (tab_lasturl s2)(tabId := None)\<rparr> else s2);
                          s4 = (if truthy (log msg) then emit [ConsoleLog (or_empty (log msg))] s3
                                else (let s5 = refreshCount P s3
                                      in if added then notifyPopups P (updateCachedData P s5) else s5))
                      in emit [SendResponse True] s4)))"

text \<open>
  The \<^verbatim>\<open>tabs.onUpdated\<close> handler; \<open>status\<close> is \<^verbatim>\<open>props.status\<close>.
\<close>

definition onUpdated :: "platform \<Rightarrow> int \<Rightarrow> string option \<Rightarrow> state \<Rightarrow> state" where
  "onUpdated P tabId status s =
     (let s1 =
            (if status = Some ''complete''
             then (if tabId = selectedId s then updateCachedData P (refreshCount P s) else s)
             else if truthy status
             then (if tab_push s tabId = Some True
                   then s\<lparr>tab_push := (tab_push s)(tabId := None)\<rparr>
                   else if tab_lasturl s tabId \<noteq> Some True
                   then (let (hadListeners, s') = clearListeners tabId s
                         in if hadListeners then notifyPopups P (updateCachedData P s') else s')
                   else s)
             else s)
      in if status = Some ''loading''
         then s1\<lparr>tab_lasturl := (tab_lasturl s1)(tabId \<mapsto> True)\<rparr>
         else s1)"

definition onActivated :: "platform \<Rightarrow> int \<Rightarrow> state \<Rightarrow> state" where
  "onActivated P tabId s =
     notifyPopups P (updateCachedData P (refreshCount P (s\<lparr>selectedId := tabId\<rparr>)))"

definition onRemoved :: "int \<Rightarrow> state \<Rightarrow> state" where
  "onRemoved tabId s =
     (let s1 = debouncedSave
                 (s\<lparr>tab_listeners := (tab_listeners s)(tabId := None),
                    tab_listener_keys := (tab_listener_keys s)(tabId := None),
                    tab_push := (tab_push s)(tabId := None),
                    tab_lasturl := (tab_lasturl s)(tabId := None)\<rparr>)
      in if currentTabId (cachedPopupData s1) = Some tabId
         then s1\<lparr>cachedPopupData := empty_cache\<rparr>
         else s1)"

subsection \<open>The identity key in the specification's words\<close>






subsection \<open>Names used in the statements\<close>

abbreviation added :: "platform \<Rightarrow> int \<Rightarrow> message \<Rightarrow> state \<Rightarrow> bool" where
  "added P t l s \<equiv> fst (addListener P t l s)"

abbreviation after_add :: "platform \<Rightarrow> int \<Rightarrow> message \<Rightarrow> state \<Rightarrow> state" where
  "after_add P t l s \<equiv> snd (addListener P t l s)"

text \<open>The four components of the identity key.\<close>

definition key_components :: "url_parser \<Rightarrow> message \<Rightarrow> string \<times> string \<times> string \<times> string" where
  "key_components parse l =
     (or_empty (extractJsUrlFromStack parse (stack l) (fullstack l)),
      or_empty (hops l), or_empty (domain l), or_empty (listener l))"

text \<open>
  The record's key is already in the key set \<^verbatim>\<open>addListener\<close> consults: deduplication is on, the
  tab has a record list (without one the key set is created anew), and the key is in the set.
\<close>

definition known_key :: "platform \<Rightarrow> int \<Rightarrow> message \<Rightarrow> state \<Rightarrow> bool" where
  "known_key P t l s =
     (dedupeEnabled s \<and> tab_listeners s t \<noteq> None
      \<and> generateListenerKey (new_URL P) l \<in> keys_of s t)"

text \<open>The state with other block rules.\<close>

definition with_rules :: "string list \<Rightarrow> string list \<Rightarrow> (string \<times> (string \<Rightarrow> bool)) list \<Rightarrow> state \<Rightarrow> state" where
  "with_rules bl bu cr s = s\<lparr>blockedListeners := bl, blockedUrls := bu, compiledRegex := cr\<rparr>"

text \<open>The first step of \<^verbatim>\<open>addListener\<close>: a tab without a record list gets an empty one and a new key set.\<close>

definition init_tab :: "int \<Rightarrow> state \<Rightarrow> state" where
  "init_tab t s =
     (if tab_listeners s t = None
      then s\<lparr>tab_listeners := (tab_listeners s)(t \<mapsto> []),
             tab_listener_keys := (tab_listener_keys s)(t \<mapsto> {})\<rparr>
      else s)"

text \<open>The state \<^verbatim>\<open>addListener\<close> has stored the record and its key in, before logging.\<close>

definition stored :: "platform \<Rightarrow> int \<Rightarrow> message \<Rightarrow> state \<Rightarrow> state" where
  "stored P t l s =
     debouncedSave (addListenerKey P l t (push_listener t l (snd (isDuplicateListener P l t (init_tab t s)))))"




subsection \<open>Sample inputs\<close>

text \<open>
  A platform with no log URL stored, on which every tab exists; outside the modelled parts
  its URL parser and its pattern compiler reject their input.
\<close>

definition sample_platform :: platform where
  "sample_platform =
     \<lparr>new_URL = URL_parse (\<lambda>u. None), new_RegExp = RegExp_i (\<lambda>p. None),
      tab_exists = (\<lambda>t. True), tab_url = (\<lambda>t. ''https://example.com/''),
      log_url = [], now = 0\<rparr>"

definition empty_message :: message where
  "empty_message =
     \<lparr>action = None, enabled = False, listener = None, stack = None, fullstack = None,
      hops = None, domain = None, window = None, parent_url = None,
      pushState = False, changePage = False, log = None\<rparr>"

definition sample_record :: message where
  "sample_record =
     empty_message\<lparr>listener := Some ''function(e){console.log(e)}'',
       stack := Some ''(https://cdn.example.com/a.js?x=1:10:5)'',
       hops := Some ''top'', domain := Some ''example.com''\<rparr>"

definition same_source_record :: message where
  "same_source_record = sample_record\<lparr>window := Some ''top''\<rparr>"

definition push_message :: message where
  "push_message = empty_message\<lparr>pushState := True\<rparr>"

definition native_message :: message where
  "native_message = empty_message\<lparr>listener := Some NATIVE_CODE, pushState := True\<rparr>"

definition dedupe_off :: state where
  "dedupe_off = initial_state\<lparr>dedupeEnabled := False\<rparr>"

definition one_tab :: state where
  "one_tab =
     initial_state\<lparr>tab_listeners := [1 \<mapsto> [sample_record]],
       tab_listener_keys := [1 \<mapsto> {''k''}]\<rparr>"

definition two_tabs :: state where
  "two_tabs =
     initial_state\<lparr>tab_listeners := [1 \<mapsto> [sample_record], 2 \<mapsto> [sample_record]],
       tab_listener_keys := [1 \<mapsto> {''k''}, 2 \<mapsto> {''k''}],
       tab_push := [1 \<mapsto> True, 2 \<mapsto> True],
       tab_lasturl := [1 \<mapsto> True, 2 \<mapsto> True],
       selectedId := 1,
       cachedPopupData := \<lparr>listeners_of_cache = TabListenersObject, currentTabId = Some 1,
                            currentUrl = ''https://example.com/'', lastUpdate = 1\<rparr>\<rparr>"





section \<open>The popup's storage class\<close>

text \<open>
  A JSON value.  The arrays of the export format hold strings (\<^verbatim>\<open>string[]\<close>); an array with
  other elements is outside the model.  \<^verbatim>\<open>JSON.parse(JSON.stringify(v))\<close> is \<^verbatim>\<open>v\<close> for such
  values, so a file that holds JSON text is modelled by the value it parses to.
\<close>

datatype json =
    JNull
  | JBool bool
  | JNum int
  | JStr string
  | JArr "string list"
  | JObj "(string \<times> json) list"

datatype file_content = NotJson | Json json

datatype import_error = SyntaxError | TypeError | InvalidFileFormat

text \<open>
  The fields of \<^verbatim>\<open>PopupStorage\<close> that the block lists use, and the key/value store behind
  \<^verbatim>\<open>storage.local\<close>.
\<close>

record popup =
  this_blockedListeners :: "string list"
  this_blockedUrls :: "string list"
  this_blockedRegex :: "string list"
  this_compiledRegex :: "(string \<times> (string \<Rightarrow> bool)) list"
  storage_local :: "string \<rightharpoonup> json"

definition BLOCKED_LISTENERS :: string where "BLOCKED_LISTENERS = ''blockedListeners''"
definition BLOCKED_URLS :: string where "BLOCKED_URLS = ''blockedUrls''"
definition BLOCKED_REGEX :: string where "BLOCKED_REGEX = ''blockedRegex''"

definition saveBlocklists :: "popup \<Rightarrow> popup" where
  "saveBlocklists st =
     st\<lparr>storage_local := (storage_local st)
           (BLOCKED_LISTENERS \<mapsto> JArr (this_blockedListeners st),
            BLOCKED_URLS \<mapsto> JArr (this_blockedUrls st))\<rparr>"

definition saveRegexPatterns :: "regexp_ctor \<Rightarrow> string list \<Rightarrow> popup \<Rightarrow> popup" where
  "saveRegexPatterns re patterns st =
     (let st1 = st\<lparr>this_blockedRegex := patterns\<rparr>;
          st2 = st1\<lparr>this_compiledRegex := compile_patterns re (this_blockedRegex st1)\<rparr>
      in st2\<lparr>storage_local := (storage_local st2)(BLOCKED_REGEX \<mapsto> JArr (this_blockedRegex st2))\<rparr>)"

text \<open>
  The three exports: the file's name and the value written to it; \<open>date\<close> is
  \<^verbatim>\<open>new Date().toISOString()\<close>.
\<close>

definition exportBlockedUrls :: "string \<Rightarrow> popup \<Rightarrow> string \<times> json" where
  "exportBlockedUrls date st =
     (''fancytracker-blocked-urls.json'',
      JObj [(''blockedUrls'', JArr (this_blockedUrls st)), (''exportDate'', JStr date),
            (''version'', JStr ''1.0'')])"

definition exportBlockedListeners :: "string \<Rightarrow> popup \<Rightarrow> string \<times> json" where
  "exportBlockedListeners date st =
     (''fancytracker-blocked-listeners.json'',
      JObj [(''blockedListeners'', JArr (this_blockedListeners st)), (''exportDate'', JStr date),
            (''version'', JStr ''1.0'')])"

definition exportBlockedRegex :: "string \<Rightarrow> popup \<Rightarrow> string \<times> json" where
  "exportBlockedRegex date st =
     (''fancytracker-blocked-regex.json'',
      JObj [(''blockedRegex'', JArr (this_blockedRegex st)), (''exportDate'', JStr date),
            (''version'', JStr ''1.0'')])"

text \<open>
  \<^verbatim>\<open>data.field && Array.isArray(data.field)\<close>: the array under the field, \<open>Inl TypeError\<close>
  when \<^verbatim>\<open>data\<close> is \<^verbatim>\<open>null\<close> (the property access throws and \<^verbatim>\<open>importData\<close> passes the error
  on), \<open>Inl InvalidFileFormat\<close> otherwise.  Of a repeated key \<^verbatim>\<open>JSON.parse\<close> keeps the last.
\<close>

definition array_field :: "string \<Rightarrow> json \<Rightarrow> import_error + string list" where
  "array_field name data =
     (case data of
        JNull \<Rightarrow> Inl TypeError
      | JObj members \<Rightarrow>
          (case map_of (rev members) name of
             Some (JArr vs) \<Rightarrow> Inr vs
           | _ \<Rightarrow> Inl InvalidFileFormat)
      | _ \<Rightarrow> Inl InvalidFileFormat)"

text \<open>
  The three imports: the error or the number of imported entries handed to the callback, and
  the new state.
\<close>

definition importBlockedUrls :: "file_content \<Rightarrow> popup \<Rightarrow> (import_error + nat) \<times> popup" where
  "importBlockedUrls file st =
     (case file of
        NotJson \<Rightarrow> (Inl SyntaxError, st)
      | Json data \<Rightarrow>
          (case array_field ''blockedUrls'' data of
             Inl e \<Rightarrow> (Inl e, st)
           | Inr vs \<Rightarrow>
               (let st1 = saveBlocklists (st\<lparr>this_blockedUrls := vs\<rparr>)
                in (Inr (length (this_blockedUrls st1)), st1))))"

definition importBlockedListeners :: "file_content \<Rightarrow> popup \<Rightarrow> (import_error + nat) \<times> popup" where
  "importBlockedListeners file st =
     (case file of
        NotJson \<Rightarrow> (Inl SyntaxError, st)
      | Json data \<Rightarrow>
          (case array_field ''blockedListeners'' data of
             Inl e \<Rightarrow> (Inl e, st)
           | Inr vs \<Rightarrow>
               (let st1 = saveBlocklists (st\<lparr>this_blockedListeners := vs\<rparr>)
                in (Inr (length (this_blockedListeners st1)), st1))))"

definition importBlockedRegex :: "regexp_ctor \<Rightarrow> file_content \<Rightarrow> popup \<Rightarrow> (import_error + nat) \<times> popup" where
  "importBlockedRegex re file st =
     (case file of
        NotJson \<Rightarrow> (Inl SyntaxError, st)
      | Json data \<Rightarrow>
          (case array_field ''blockedRegex'' data of
             Inl e \<Rightarrow> (Inl e, st)
           | Inr vs \<Rightarrow>
               (let st1 = saveRegexPatterns re vs st
                in (Inr (length (this_blockedRegex st1)), st1))))"

section \<open>The page hook\<close>

text \<open>
  The values the hook may be handed as a listener.  An object carries what the hook reads of
  it: whether it is callable (\<^verbatim>\<open>typeof v == "function"\<close>), its source text as
  \<^verbatim>\<open>Function.prototype.toString\<close> gives it, what calling its \<^verbatim>\<open>toString\<close> property does, whether
  it is extensible, and its data properties in enumeration order.  Property getters, proxies
  and cyclic references are outside the model.
\<close>

datatype js_error = JsTypeError | JsRangeError | JsDataCloneError

text \<open>
  Calling \<^verbatim>\<open>v.toString()\<close>: it returns a text, or the call throws (the property is missing,
  as on an object without prototype, or is not callable, or the method throws).
\<close>

datatype tostring = Text string | Raises

datatype jsval =
    JsUndefined
  | JsNull
  | JsBool bool
  | JsStr string
  | JsObj bool string tostring bool "(string \<times> jsval) list"

definition js_truthy :: "jsval \<Rightarrow> bool" where
  "js_truthy v =
     (case v of
        JsUndefined \<Rightarrow> False | JsNull \<Rightarrow> False | JsBool b \<Rightarrow> b | JsStr s \<Rightarrow> s \<noteq> []
      | JsObj fn src ts ext ps \<Rightarrow> True)"

definition is_function :: "jsval \<Rightarrow> bool" where
  "is_function v = (case v of JsObj fn src ts ext ps \<Rightarrow> fn | _ \<Rightarrow> False)"

text \<open>\<^verbatim>\<open>v[key]\<close> on a value that is neither \<^verbatim>\<open>undefined\<close> nor \<^verbatim>\<open>null\<close>; the last definition of a key wins.\<close>

definition get_prop :: "jsval \<Rightarrow> string \<Rightarrow> jsval" where
  "get_prop v key =
     (case v of
        JsObj fn src ts ext ps \<Rightarrow> (case map_of (rev ps) key of Some x \<Rightarrow> x | None \<Rightarrow> JsUndefined)
      | _ \<Rightarrow> JsUndefined)"

text \<open>\<^verbatim>\<open>v.toString()\<close>\<close>

definition call_toString :: "jsval \<Rightarrow> js_error + string" where
  "call_toString v =
     (case v of
        JsUndefined \<Rightarrow> Inl JsTypeError
      | JsNull \<Rightarrow> Inl JsTypeError
      | JsBool b \<Rightarrow> Inr (if b then ''true'' else ''false'')
      | JsStr s \<Rightarrow> Inr s
      | JsObj fn src ts ext ps \<Rightarrow> (case ts of Text s \<Rightarrow> Inr s | Raises \<Rightarrow> Inl JsTypeError))"

text \<open>\<^verbatim>\<open>originalFunctionToString.apply(v)\<close>: a TypeError unless \<open>v\<close> is callable.\<close>

definition function_source :: "jsval \<Rightarrow> js_error + string" where
  "function_source v =
     (case v of
        JsObj fn src ts ext ps \<Rightarrow> (if fn then Inr src else Inl JsTypeError)
      | _ \<Rightarrow> Inl JsTypeError)"

definition EXTENSION_MARKER :: string where
  "EXTENSION_MARKER = ''__FANCYTRACKER_INTERNAL__''"

definition extension_blacklist :: "string list" where
  "extension_blacklist =
     [''wappalyzer'', ''react-devtools'', ''vue-devtools'', ''domlogger'', ''bitwarden-webauthn'',
      ''POSTMESSAGE_TRACKER_DATA'', ''FancyTracker:'', ''__postmessagetrackername__'']"

text \<open>The hook's own \<^verbatim>\<open>isFromExtension\<close>: whatever is thrown inside is caught.\<close>

definition page_isFromExtension :: "jsval \<Rightarrow> string \<Rightarrow> bool" where
  "page_isFromExtension l st =
     (case call_toString l of
        Inl e \<Rightarrow> False
      | Inr listenerStr \<Rightarrow> list_ex (\<lambda>b. includes_str b (listenerStr @ '' '' @ st)) extension_blacklist)"

definition isExtensionListener :: "jsval \<Rightarrow> bool" where
  "isExtensionListener l =
     (if js_truthy l \<and> js_truthy (get_prop l EXTENSION_MARKER) then True
      else page_isFromExtension l [])"

text \<open>
  A pattern of the shape \<^verbatim>\<open>A.*B.*C\<close> with the \<^verbatim>\<open>s\<close> flag, each of A, B, C a choice between
  literal texts: the text holds one alternative of each group, in this order, without overlap.
\<close>

fun tails :: "string \<Rightarrow> string list" where
  "tails [] = [[]]"
| "tails (c # cs) = (c # cs) # tails cs"

definition rests_after :: "string list \<Rightarrow> string \<Rightarrow> string list" where
  "rests_after alts s =
     concat (map (\<lambda>t. map (\<lambda>a. drop (length a) t) (filter (\<lambda>a. starts_with a t) alts)) (tails s))"

fun match_seq :: "string list list \<Rightarrow> string \<Rightarrow> bool" where
  "match_seq [] s = True"
| "match_seq (g # gs) s = list_ex (match_seq gs) (rests_after g s)"

text \<open>The wrapper detection (\<^verbatim>\<open>c\<close> in the source); \<open>None\<close> is \<^verbatim>\<open>false\<close>.\<close>

definition c_wrapper :: "jsval \<Rightarrow> string option" where
  "c_wrapper l =
     (case function_source l of
        Inl e \<Rightarrow> None
      | Inr listener_str \<Rightarrow>
          if match_seq [[''.deep''], [''apply''], [''captureException'']] listener_str
          then Some ''raven''
          else if match_seq [[''arguments''], [''start'', ''typeof''], [''err''], [''finally''], [''end'']] listener_str
                  \<and> js_truthy (get_prop l ''nr@original'')
          then Some ''newrelic''
          else if match_seq [[''rollbarContext''], [''rollbarWrappedError'']] listener_str
                  \<and> js_truthy (get_prop l ''_isWrap'')
          then Some ''rollbar''
          else if match_seq [[''autoNotify''], [''unhandledException'', ''notifyException'']] listener_str
                  \<and> is_function (get_prop l ''bugsnag'')
          then Some ''bugsnag''
          else if match_seq [[''call''], [''arguments''], [''typeof''], [''apply'']] listener_str
                  \<and> is_function (get_prop l ''__sentry_original__'')
          then Some ''sentry''
          else if match_seq [[''function''], [''function''], [''.apply''], [''arguments'']] listener_str
                  \<and> is_function (get_prop l ''__trace__'')
          then Some ''bugsnag2''
          else None)"

text \<open>
  What the hook posts to the bridge (\<^verbatim>\<open>m\<close>): a log line, or a listener with its window
  label, hops, domain, stack line, full stack and code.
\<close>

datatype page_message =
    LogMessage string
  | ListenerMessage string string string "string option" "string list" jsval

text \<open>
  \<^verbatim>\<open>window.postMessage\<close> clones its message; a function inside it makes the clone fail
  with a DataCloneError.
\<close>

fun clonable :: "jsval \<Rightarrow> bool" where
  "clonable (JsObj fn src ts ext ps) = (\<not> fn \<and> (\<forall>v \<in> snd ` set ps. clonable v))"
| "clonable v = True"

text \<open>The outcome of a call: an exception reaches the caller, or the call ends normally.\<close>

datatype 'a outcome = Threw js_error | Done 'a

text \<open>
  \<^verbatim>\<open>listener.__postmessagetrackername__ = v\<close> in strict code: a TypeError on a value that
  cannot take the property (a primitive, or an object that is not extensible and lacks it).
\<close>

definition set_trackername :: "jsval \<Rightarrow> jsval \<Rightarrow> jsval outcome" where
  "set_trackername l v =
     (case l of
        JsObj fn src ts ext ps \<Rightarrow>
          if ext \<or> map_of ps ''__postmessagetrackername__'' \<noteq> None
          then Done (JsObj fn src ts ext (ps @ [(''__postmessagetrackername__'', v)]))
          else Threw JsTypeError
      | _ \<Rightarrow> Threw JsTypeError)"

text \<open>
  The end of \<^verbatim>\<open>unwrap\<close>: a listener whose \<^verbatim>\<open>name\<close> starts with \<^verbatim>\<open>bound \<close> is labelled with it.
  \<^verbatim>\<open>listener.name.indexOf\<close> is a function only on a string.
\<close>

definition label_bound :: "jsval \<Rightarrow> jsval outcome" where
  "label_bound l =
     (if js_truthy l \<and> js_truthy (get_prop l ''name'')
      then (case get_prop l ''name'' of
              JsStr n \<Rightarrow> if starts_with ''bound '' n then set_trackername l (JsStr n) else Done l
            | _ \<Rightarrow> Threw JsTypeError)
      else Done l)"

text \<open>The function-valued properties that \<^verbatim>\<open>for (var key in listener)\<close> meets.\<close>

definition function_props :: "jsval \<Rightarrow> jsval list" where
  "function_props l =
     (case l of
        JsObj fn src ts ext ps \<Rightarrow> filter is_function (map snd ps)
      | _ \<Rightarrow> [])"

text \<open>
  \<^verbatim>\<open>unwrap\<close>, with the offset and the posted log messages threaded through.  The first
  argument bounds the depth of the recursion as the engine's stack does; exceeding it is a
  RangeError.  In strict code \<^verbatim>\<open>arguments.callee\<close> throws, so the two bugsnag branches only
  count one layer.
\<close>

fun unwrap :: "nat \<Rightarrow> jsval \<Rightarrow> nat \<times> page_message list \<Rightarrow> page_message list \<times> (jsval \<times> nat) outcome" where
  "unwrap 0 l (offset, out) = (out, Threw JsRangeError)"
| "unwrap (Suc depth) l (offset, out) =
     (let found = c_wrapper l;
          out1 = (case found of None \<Rightarrow> out
                  | Some w \<Rightarrow> out @ [LogMessage (''Unwrapping '' @ w @ '' wrapper'')]);
          inner =
            (if found = Some ''raven''
             then (case function_props l of
                     [f] \<Rightarrow> unwrap depth f (offset + 1, out1)
                   | _ \<Rightarrow> (out1, Done (l, offset)))
             else if found = Some ''newrelic''
             then unwrap depth (get_prop l ''nr@original'') (offset + 1, out1)
             else if found = Some ''sentry''
             then unwrap depth (get_prop l ''__sentry_original__'') (offset + 1, out1)
             else if found = Some ''rollbar''
             then (if js_truthy (get_prop l ''_wrapped'')
                   then unwrap depth (get_prop l ''_wrapped'') (offset + 2, out1)
                   else if js_truthy (get_prop l ''_rollbar_wrapped'')
                   then unwrap depth (get_prop l ''_rollbar_wrapped'') (offset + 2, out1)
                   else (out1, Done (l, offset + 2)))
             else if found = Some ''bugsnag'' \<or> found = Some ''bugsnag2''
             then (out1, Done (l, offset + 1))
             else (out1, Done (l, offset)))
      in case inner of
           (out', Threw e) \<Rightarrow> (out', Threw e)
         | (out', Done (l', offset')) \<Rightarrow>
             (case label_bound l' of
                Threw e \<Rightarrow> (out', Threw e)
              | Done l'' \<Rightarrow> (out', Done (l'', offset'))))"

text \<open>
  What the page supplies to one call of the hook: the stack text of a new error, the results
  of \<^verbatim>\<open>h()\<close>, \<^verbatim>\<open>document.domain\<close> and the window label, and the depth the engine's stack allows.
\<close>

record page =
  error_stack :: string
  window_label :: string
  frame_hops :: string
  document_domain :: string
  stack_depth :: nat

text \<open>\<^verbatim>\<open>line.trim()\<close>\<close>

definition trim :: "string \<Rightarrow> string" where
  "trim s = rev (dropWhile is_space (rev (dropWhile is_space s)))"

text \<open>\<^verbatim>\<open>/init\.on|init\..*on\]/\<close>\<close>

definition matches_pattern_before :: "string \<Rightarrow> bool" where
  "matches_pattern_before e = (includes_str ''init.on'' e \<or> match_seq [[''init.''], [''on]'']] e)"

text \<open>The \<^verbatim>\<open>filter\<close> of \<^verbatim>\<open>l\<close>: it keeps each line that follows a matching line.\<close>

fun lines_after_match :: "bool \<Rightarrow> string list \<Rightarrow> string list" where
  "lines_after_match nextitem [] = []"
| "lines_after_match nextitem (e # es) =
     (if nextitem then e # lines_after_match False es
      else lines_after_match (matches_pattern_before e) es)"

text \<open>\<^verbatim>\<open>stack[i]\<close>, \<^verbatim>\<open>undefined\<close> out of range.\<close>

definition line_at :: "string list \<Rightarrow> nat \<Rightarrow> string option" where
  "line_at ls i = (if i < length ls then Some (ls ! i) else None)"

text \<open>\<^verbatim>\<open>fullstack.join(' ')\<close>\<close>

fun join_space :: "string list \<Rightarrow> string" where
  "join_space [] = []"
| "join_space [x] = x"
| "join_space (x # y # ys) = x @ '' '' @ join_space (y # ys)"

text \<open>
  The report of a listener (\<^verbatim>\<open>l\<close> in the source): the messages posted, or the exception of
  \<^verbatim>\<open>listener.__postmessagetrackername__ || listener.toString()\<close> or of posting the message.
\<close>

definition l_report :: "page \<Rightarrow> jsval \<Rightarrow> bool \<Rightarrow> nat \<Rightarrow> page_message list outcome" where
  "l_report pg lst pattern_before additional_offset =
     (let offset = 3 + additional_offset;
          fullstack' = map trim (split_on (CHR 0x0A) (error_stack pg))
      in if page_isFromExtension lst (join_space fullstack') then Done []
         else (let stack' = (if pattern_before
                             then line_at (lines_after_match False fullstack') 0
                             else line_at fullstack' offset);
                   name = get_prop lst ''__postmessagetrackername__''
               in case (if js_truthy name then Inr name else map_sum id JsStr (call_toString lst)) of
                    Inl e \<Rightarrow> Threw e
                  | Inr listener_str \<Rightarrow>
                      if clonable listener_str
                      then Done [ListenerMessage (window_label pg) (frame_hops pg) (document_domain pg)
                                   stack' fullstack' listener_str]
                      else Threw JsDataCloneError))"

text \<open>
  The replaced \<^verbatim>\<open>Window.prototype.addEventListener\<close>.  \<open>Delegated args\<close>: the hook ended with
  \<^verbatim>\<open>return originalAddEventListener.apply(this, arguments)\<close>, the code being strict so that
  \<^verbatim>\<open>arguments\<close> still holds what the caller passed (a label the hook has set on the listener
  object is not shown in it).  The result pairs the messages posted with the outcome.  The
  timer that rescans jQuery's handlers is left out.
\<close>

datatype registration = Delegated string jsval jsval

definition hooked_addEventListener ::
  "page \<Rightarrow> string \<Rightarrow> jsval \<Rightarrow> jsval \<Rightarrow> page_message list \<times> registration outcome" where
  "hooked_addEventListener pg type lst useCapture =
     (if type = ''message''
      then (if isExtensionListener lst then ([], Done (Delegated type lst useCapture))
            else (case (if js_truthy lst then call_toString lst else Inr []) of
                    Inl e \<Rightarrow> ([], Threw e)
                  | Inr text \<Rightarrow>
                      (let pattern_before = (js_truthy lst \<and> includes_str ''event.dispatch.apply'' text)
                       in if is_function lst
                          then (case unwrap (stack_depth pg) lst (0, []) of
                                  (out, Threw e) \<Rightarrow> (out, Threw e)
                                | (out, Done (lst', offset)) \<Rightarrow>
                                    (case l_report pg lst' pattern_before offset of
                                       Threw e \<Rightarrow> (out, Threw e)
                                     | Done out' \<Rightarrow> (out @ out', Done (Delegated type lst useCapture))))
                          else ([], Done (Delegated type lst useCapture)))))
      else ([], Done (Delegated type lst useCapture)))"

text \<open>
  A listener object without prototype, as a module namespace object or
  \<^verbatim>\<open>Object.create(null)\<close> with a \<^verbatim>\<open>handleEvent\<close> method is: it has no \<^verbatim>\<open>toString\<close>.
\<close>

definition handle_event_method :: jsval where
  "handle_event_method = JsObj True ''handleEvent(e) { }'' (Text ''handleEvent(e) { }'') True []"

definition null_prototype_listener :: jsval where
  "null_prototype_listener = JsObj False [] Raises True [(''handleEvent'', handle_event_method)]"

definition sample_page :: page where
  "sample_page =
     \<lparr>error_stack = [], window_label = ''top'', frame_hops = ''top'',
      document_domain = ''example.com'', stack_depth = 1000\<rparr>"

text \<open>A bound function that was frozen: its \<^verbatim>\<open>name\<close> starts with \<^verbatim>\<open>bound \<close>, it takes no new property.\<close>

definition frozen_bound_listener :: jsval where
  "frozen_bound_listener =
     JsObj True ''function () { [native code] }'' (Text ''function () { [native code] }'') False
       [(''name'', JsStr ''bound onMessage'')]"

section \<open>Properties\<close>

subsection \<open>Strings and URLs\<close>

lemma starts_with_iff: "starts_with p s \<longleftrightarrow> s = p @ drop (length p) s"
  by (induction p s rule: starts_with.induct) auto

lemma starts_with_append [simp]: "starts_with p (p @ x)"
  by (simp add: starts_with_iff)











subsection \<open>C6: \<^verbatim>\<open>cleanUrl\<close> strips query and fragment; where it is idempotent\<close>




subsection \<open>The store and the handlers\<close>

lemma emit_simps [simp]:
  "tab_listeners (emit es s) = tab_listeners s"
  "tab_listener_keys (emit es s) = tab_listener_keys s"
  "tab_push (emit es s) = tab_push s"
  "tab_lasturl (emit es s) = tab_lasturl s"
  "selectedId (emit es s) = selectedId s"
  "connectedPorts (emit es s) = connectedPorts s"
  "dedupeEnabled (emit es s) = dedupeEnabled s"
  "blockedListeners (emit es s) = blockedListeners s"
  "blockedUrls (emit es s) = blockedUrls s"
  "blockedRegex (emit es s) = blockedRegex s"
  "compiledRegex (emit es s) = compiledRegex s"
  "cachedPopupData (emit es s) = cachedPopupData s"
  "trace (emit es s) = trace s @ es"
  by (simp_all add: emit_def)

lemma updateCachedData_simps [simp]:
  "tab_listeners (updateCachedData P s) = tab_listeners s"
  "tab_listener_keys (updateCachedData P s) = tab_listener_keys s"
  "tab_push (updateCachedData P s) = tab_push s"
  "tab_lasturl (updateCachedData P s) = tab_lasturl s"
  "selectedId (updateCachedData P s) = selectedId s"
  "connectedPorts (updateCachedData P s) = connectedPorts s"
  "dedupeEnabled (updateCachedData P s) = dedupeEnabled s"
  "blockedListeners (updateCachedData P s) = blockedListeners s"
  "blockedUrls (updateCachedData P s) = blockedUrls s"
  "compiledRegex (updateCachedData P s) = compiledRegex s"
  "trace (updateCachedData P s) = trace s"
  by (simp_all add: updateCachedData_def)

lemma notifyPopups_simps [simp]:
  "tab_listeners (notifyPopups P s) = tab_listeners s"
  "tab_listener_keys (notifyPopups P s) = tab_listener_keys s"
  "tab_push (notifyPopups P s) = tab_push s"
  "tab_lasturl (notifyPopups P s) = tab_lasturl s"
  "selectedId (notifyPopups P s) = selectedId s"
  "dedupeEnabled (notifyPopups P s) = dedupeEnabled s"
  "trace (notifyPopups P s) = trace s @ map PortPost (connectedPorts s)"
  by (simp_all add: notifyPopups_def)

lemma refreshCount_simps [simp]:
  "tab_push (refreshCount P s) = tab_push s"
  "selectedId (refreshCount P s) = selectedId s"
  "connectedPorts (refreshCount P s) = connectedPorts s"
  "dedupeEnabled (refreshCount P s) = dedupeEnabled s"
  "blockedListeners (refreshCount P s) = blockedListeners s"
  "blockedUrls (refreshCount P s) = blockedUrls s"
  "compiledRegex (refreshCount P s) = compiledRegex s"
  by (simp_all add: refreshCount_def debouncedSave_def)

text \<open>\<^verbatim>\<open>refreshCount\<close> deletes entries only of a selected tab that no longer exists.\<close>

lemma refreshCount_keeps:
  "tab_exists P t \<Longrightarrow> tab_listeners (refreshCount P s) t = tab_listeners s t"
  "tab_exists P t \<Longrightarrow> tab_listener_keys (refreshCount P s) t = tab_listener_keys s t"
  "tab_exists P t \<Longrightarrow> tab_lasturl (refreshCount P s) t = tab_lasturl s t"
  by (auto simp: refreshCount_def debouncedSave_def)

lemma clearListeners_simps [simp]:
  "tab_listeners (snd (clearListeners t s)) = (tab_listeners s)(t \<mapsto> [])"
  "tab_push (snd (clearListeners t s)) = tab_push s"
  "tab_lasturl (snd (clearListeners t s)) = tab_lasturl s"
  "selectedId (snd (clearListeners t s)) = selectedId s"
  by (simp_all add: clearListeners_def debouncedSave_def Let_def)

lemma clearListeners_keys:
  "keys_of (snd (clearListeners t s)) t = {}"
  by (simp add: clearListeners_def debouncedSave_def Let_def keys_of_def)

text \<open>What a message without a listener does to the store of a tab that exists.\<close>

lemma onMessage_signal:
  assumes "action msg \<noteq> Some ''updateDedupeSetting''" and "listener msg = None"
    and "tab_exists P t"
  shows "tab_listeners (onMessage P msg (Some (t, u)) s) t = tab_listeners s t"
    and "tab_listener_keys (onMessage P msg (Some (t, u)) s) t = tab_listener_keys s t"
    and "pushState msg \<Longrightarrow> tab_push (onMessage P msg (Some (t, u)) s) t = Some True"
  using assms
  by (simp_all add: onMessage_def truthy_def Let_def refreshCount_keeps)

lemma onUpdated_pushed:
  assumes "tab_push s t = Some True" and "tab_exists P t"
  shows "tab_listeners (onUpdated P t st s) t = tab_listeners s t"
    and "tab_listener_keys (onUpdated P t st s) t = tab_listener_keys s t"
    and "truthy st \<Longrightarrow> st \<noteq> Some ''complete'' \<Longrightarrow> tab_push (onUpdated P t st s) t = None"
    and "st = Some ''complete'' \<Longrightarrow> tab_push (onUpdated P t st s) t = Some True"
  using assms
  by (auto simp: onUpdated_def Let_def refreshCount_keeps)

lemma onUpdated_clears:
  assumes "truthy st" and "st \<noteq> Some ''complete''"
    and "tab_push s t \<noteq> Some True" and "tab_lasturl s t \<noteq> Some True"
  shows "tab_listeners (onUpdated P t st s) t = Some []"
    and "keys_of (onUpdated P t st s) t = {}"
proof -
  obtain had s' where c: "clearListeners t s = (had, s')"
    by (cases "clearListeners t s")
  then have s': "s' = snd (clearListeners t s)" by simp
  have 1: "tab_listeners s' t = Some []" "keys_of s' t = {}"
    by (simp_all add: s' clearListeners_keys)
  have k: "keys_of (notifyPopups P (updateCachedData P s')) t = keys_of s' t"
    by (simp add: keys_of_def)
  show "tab_listeners (onUpdated P t st s) t = Some []"
    using assms c 1 by (simp add: onUpdated_def Let_def)
  show "keys_of (onUpdated P t st s) t = {}"
    using assms c 1 k by (auto simp: onUpdated_def Let_def keys_of_def)
qed

lemma key_of_components:
  "key_components parse r1 = key_components parse r2 \<Longrightarrow>
   generateListenerKey parse r1 = generateListenerKey parse r2"
  by (simp add: key_components_def generateListenerKey_def Let_def)

lemma logListener_simps [simp]:
  "tab_listeners (logListener P l s) = tab_listeners s"
  "tab_listener_keys (logListener P l s) = tab_listener_keys s"
  "tab_push (logListener P l s) = tab_push s"
  "tab_lasturl (logListener P l s) = tab_lasturl s"
  "dedupeEnabled (logListener P l s) = dedupeEnabled s"
  "selectedId (logListener P l s) = selectedId s"
  by (simp_all add: logListener_def)

lemma addListener_filtered:
  "isFromExtension (listener l) (stack l) \<Longrightarrow> addListener P t l s = (False, s)"
  by (simp add: addListener_def)

lemma addListener_added:
  assumes "\<not> isFromExtension (listener l) (stack l)"
  shows "fst (addListener P t l s) = (\<not> known_key P t l s)"
  using assms
  by (auto simp: addListener_def known_key_def isDuplicateListener_def ensure_keys_def keys_of_def
      Let_def split: option.splits)

lemma addListener_dedupe [simp]:
  "dedupeEnabled (snd (addListener P t l s)) = dedupeEnabled s"
  by (auto simp: addListener_def isDuplicateListener_def ensure_keys_def addListenerKey_def
      push_listener_def debouncedSave_def Let_def)

lemma addListener_records:
  assumes "\<not> isFromExtension (listener l) (stack l)"
  shows "records_of (snd (addListener P t l s)) t =
           (if known_key P t l s then records_of s t else records_of s t @ [l])"
    and "tab_listeners (snd (addListener P t l s)) t \<noteq> None"
  using assms
  by (auto simp: addListener_def known_key_def isDuplicateListener_def ensure_keys_def keys_of_def
      addListenerKey_def push_listener_def debouncedSave_def records_of_def
      Let_def split: option.splits)

lemma addListener_keys_on:
  assumes "\<not> isFromExtension (listener l) (stack l)" and "dedupeEnabled s"
  shows "generateListenerKey (new_URL P) l \<in> keys_of (snd (addListener P t l s)) t"
  using assms
  by (auto simp: addListener_def isDuplicateListener_def ensure_keys_def keys_of_def
      addListenerKey_def push_listener_def debouncedSave_def
      Let_def split: option.splits)

lemma addListener_keys_off:
  assumes "\<not> dedupeEnabled s"
  shows "keys_of (snd (addListener P t l s)) t \<subseteq> keys_of s t"
  using assms
  by (auto simp: addListener_def isDuplicateListener_def keys_of_def
      addListenerKey_def push_listener_def debouncedSave_def
      Let_def split: option.splits)

subsection \<open>C7: removing a tab\<close>

text \<open>
  C7.  After the tab-removal handler ran for a tab, the record list, the key set, the push
  flag and the last-URL flag have no entry for it, and neither has the listeners object seen
  through the popup cache; a cache that was for the removed tab is reset to its empty value,
  any other cache is kept.  The four entries of every other tab are unchanged.
\<close>

theorem C7_tab_removal_deletes_all_state_of_the_tab:
  "tab_listeners (onRemoved t s) t = None
   \<and> tab_listener_keys (onRemoved t s) t = None
   \<and> tab_push (onRemoved t s) t = None
   \<and> tab_lasturl (onRemoved t s) t = None
   \<and> cache_listeners (onRemoved t s) t = None
   \<and> currentTabId (cachedPopupData (onRemoved t s)) \<noteq> Some t
   \<and> (currentTabId (cachedPopupData s) = Some t \<longrightarrow> cachedPopupData (onRemoved t s) = empty_cache)
   \<and> (currentTabId (cachedPopupData s) \<noteq> Some t \<longrightarrow> cachedPopupData (onRemoved t s) = cachedPopupData s)
   \<and> (\<forall>t'. t' \<noteq> t \<longrightarrow>
          tab_listeners (onRemoved t s) t' = tab_listeners s t'
          \<and> tab_listener_keys (onRemoved t s) t' = tab_listener_keys s t'
          \<and> tab_push (onRemoved t s) t' = tab_push s t'
          \<and> tab_lasturl (onRemoved t s) t' = tab_lasturl s t')"
  by (simp add: onRemoved_def debouncedSave_def cache_listeners_def empty_cache_def Let_def
      split: listeners_ref.split)

theorem C7_witness:
  "currentTabId (cachedPopupData two_tabs) = Some 1
   \<and> tab_listeners two_tabs 1 \<noteq> None
   \<and> tab_listeners (onRemoved 1 two_tabs) 1 = None
   \<and> cachedPopupData (onRemoved 1 two_tabs) = empty_cache
   \<and> (2::int) \<noteq> 1
   \<and> tab_listeners (onRemoved 1 two_tabs) 2 = Some [sample_record]
   \<and> tab_listener_keys (onRemoved 1 two_tabs) 2 = Some {''k''}
   \<and> tab_push (onRemoved 1 two_tabs) 2 = Some True
   \<and> tab_lasturl (onRemoved 1 two_tabs) 2 = Some True"
proof -
  have c: "currentTabId (cachedPopupData two_tabs) = Some 1"
    by (simp add: two_tabs_def initial_state_def)
  have d: "(2::int) \<noteq> 1" by simp
  note t = C7_tab_removal_deletes_all_state_of_the_tab [of 1 two_tabs]
  from t c have 1: "tab_listeners (onRemoved 1 two_tabs) 1 = None"
    "cachedPopupData (onRemoved 1 two_tabs) = empty_cache"
    by blast+
  from t d have 2: "tab_listeners (onRemoved 1 two_tabs) 2 = tab_listeners two_tabs 2"
    "tab_listener_keys (onRemoved 1 two_tabs) 2 = tab_listener_keys two_tabs 2"
    "tab_push (onRemoved 1 two_tabs) 2 = tab_push two_tabs 2"
    "tab_lasturl (onRemoved 1 two_tabs) 2 = tab_lasturl two_tabs 2"
    by blast+
  show ?thesis
    using c 1 2 by (simp add: two_tabs_def initial_state_def)
qed

subsection \<open>C9: a native-code listener\<close>

text \<open>
  C9.  An observation message (one that is not the popup's settings message) whose listener
  is exactly \<^verbatim>\<open>function () { [native code] }\<close> is answered and nothing else: every field of
  the state is as before (no record, no key, no flag, no cache update) and the only effect is
  the response, so no port message and no save.
\<close>

theorem C9_native_code_listener_changes_nothing:
  assumes "action msg \<noteq> Some ''updateDedupeSetting''"
    and "listener msg = Some NATIVE_CODE"
  shows "onMessage P msg sender s = s\<lparr>trace := trace s @ [SendResponse (sender \<noteq> None)]\<rparr>"
  using assms
  by (auto simp: onMessage_def emit_def truthy_def NATIVE_CODE_def split: option.splits)

theorem C9_witness:
  "action native_message \<noteq> Some ''updateDedupeSetting''
   \<and> listener native_message = Some NATIVE_CODE
   \<and> onMessage sample_platform native_message (Some (1, ''https://example.com/'')) two_tabs
       = two_tabs\<lparr>trace := [SendResponse True]\<rparr>"
proof -
  have a: "action native_message \<noteq> Some ''updateDedupeSetting''"
    by (simp add: native_message_def empty_message_def)
  have l: "listener native_message = Some NATIVE_CODE"
    by (simp add: native_message_def)
  have t: "trace two_tabs = []"
    by (simp add: two_tabs_def initial_state_def)
  show ?thesis
    using a l t
      C9_native_code_listener_changes_nothing [OF a l, of sample_platform "Some (1, ''https://example.com/'')" two_tabs]
    by simp
qed

subsection \<open>C3: history pushes and document changes\<close>

text \<open>
  C3 (as amended).  After a push signal from a tab that exists, the next \<^verbatim>\<open>onUpdated\<close> event
  of that tab, whatever its status, leaves the tab's records and key set as they were before
  the signal.  When that status is present and is not \<^verbatim>\<open>complete\<close> the push flag is consumed;
  a \<^verbatim>\<open>complete\<close> status leaves the flag set.  An event with a present status other than
  \<^verbatim>\<open>complete\<close>, on a tab with neither push flag nor last-URL flag, leaves the tab with an empty
  record list and an empty key set.
\<close>

theorem C3_push_absorbs_next_transition_and_document_change_clears:
  "(pushState msg \<and> action msg \<noteq> Some ''updateDedupeSetting'' \<and> listener msg = None \<and> tab_exists P t
      \<longrightarrow> tab_listeners (onUpdated P t st (onMessage P msg (Some (t, u)) s)) t = tab_listeners s t
        \<and> tab_listener_keys (onUpdated P t st (onMessage P msg (Some (t, u)) s)) t = tab_listener_keys s t
        \<and> (truthy st \<and> st \<noteq> Some ''complete''
             \<longrightarrow> tab_push (onUpdated P t st (onMessage P msg (Some (t, u)) s)) t = None)
        \<and> (st = Some ''complete''
             \<longrightarrow> tab_push (onUpdated P t st (onMessage P msg (Some (t, u)) s)) t = Some True))
   \<and> (truthy st \<and> st \<noteq> Some ''complete'' \<and> tab_push s t \<noteq> Some True \<and> tab_lasturl s t \<noteq> Some True
      \<longrightarrow> tab_listeners (onUpdated P t st s) t = Some [] \<and> keys_of (onUpdated P t st s) t = {})"
proof -
  have a: "tab_listeners (onUpdated P t st (onMessage P msg (Some (t, u)) s)) t = tab_listeners s t
        \<and> tab_listener_keys (onUpdated P t st (onMessage P msg (Some (t, u)) s)) t = tab_listener_keys s t
        \<and> (truthy st \<and> st \<noteq> Some ''complete''
             \<longrightarrow> tab_push (onUpdated P t st (onMessage P msg (Some (t, u)) s)) t = None)
        \<and> (st = Some ''complete''
             \<longrightarrow> tab_push (onUpdated P t st (onMessage P msg (Some (t, u)) s)) t = Some True)"
    if h: "pushState msg" "action msg \<noteq> Some ''updateDedupeSetting''" "listener msg = None" "tab_exists P t"
  proof -
    let ?s1 = "onMessage P msg (Some (t, u)) s"
    have p: "tab_push ?s1 t = Some True"
      using h onMessage_signal(3) by blast
    show ?thesis
      using onUpdated_pushed [OF p h(4)] onMessage_signal(1,2) [OF h(2) h(3) h(4)]
      by simp
  qed
  have b: "tab_listeners (onUpdated P t st s) t = Some [] \<and> keys_of (onUpdated P t st s) t = {}"
    if "truthy st \<and> st \<noteq> Some ''complete'' \<and> tab_push s t \<noteq> Some True \<and> tab_lasturl s t \<noteq> Some True"
    using that onUpdated_clears [of st s t P] by simp
  show ?thesis
  proof (rule conjI)
    show "pushState msg \<and> action msg \<noteq> Some ''updateDedupeSetting'' \<and> listener msg = None \<and> tab_exists P t
      \<longrightarrow> tab_listeners (onUpdated P t st (onMessage P msg (Some (t, u)) s)) t = tab_listeners s t
        \<and> tab_listener_keys (onUpdated P t st (onMessage P msg (Some (t, u)) s)) t = tab_listener_keys s t
        \<and> (truthy st \<and> st \<noteq> Some ''complete''
             \<longrightarrow> tab_push (onUpdated P t st (onMessage P msg (Some (t, u)) s)) t = None)
        \<and> (st = Some ''complete''
             \<longrightarrow> tab_push (onUpdated P t st (onMessage P msg (Some (t, u)) s)) t = Some True)"
    proof (rule impI, elim conjE)
      assume "pushState msg" "action msg \<noteq> Some ''updateDedupeSetting''" "listener msg = None" "tab_exists P t"
      then show "tab_listeners (onUpdated P t st (onMessage P msg (Some (t, u)) s)) t = tab_listeners s t
        \<and> tab_listener_keys (onUpdated P t st (onMessage P msg (Some (t, u)) s)) t = tab_listener_keys s t
        \<and> (truthy st \<and> st \<noteq> Some ''complete''
             \<longrightarrow> tab_push (onUpdated P t st (onMessage P msg (Some (t, u)) s)) t = None)
        \<and> (st = Some ''complete''
             \<longrightarrow> tab_push (onUpdated P t st (onMessage P msg (Some (t, u)) s)) t = Some True)"
        by (rule a)
    qed
    show "truthy st \<and> st \<noteq> Some ''complete'' \<and> tab_push s t \<noteq> Some True \<and> tab_lasturl s t \<noteq> Some True
      \<longrightarrow> tab_listeners (onUpdated P t st s) t = Some [] \<and> keys_of (onUpdated P t st s) t = {}"
      using b by (rule impI)
  qed
qed

theorem C3_witness:
  "pushState push_message \<and> action push_message \<noteq> Some ''updateDedupeSetting''
   \<and> listener push_message = None \<and> tab_exists sample_platform 1
   \<and> truthy (Some ''loading'') \<and> Some ''loading'' \<noteq> Some ''complete''
   \<and> tab_listeners (onUpdated sample_platform 1 (Some ''loading'')
         (onMessage sample_platform push_message (Some (1, ''https://example.com/'')) one_tab)) 1
       = Some [sample_record]
   \<and> tab_push (onUpdated sample_platform 1 (Some ''loading'')
         (onMessage sample_platform push_message (Some (1, ''https://example.com/'')) one_tab)) 1
       = None
   \<and> tab_push one_tab 1 \<noteq> Some True \<and> tab_lasturl one_tab 1 \<noteq> Some True
   \<and> tab_listeners (onUpdated sample_platform 1 (Some ''loading'') one_tab) 1 = Some []
   \<and> keys_of (onUpdated sample_platform 1 (Some ''loading'') one_tab) 1 = {}"
proof -
  have h: "pushState push_message \<and> action push_message \<noteq> Some ''updateDedupeSetting''
      \<and> listener push_message = None \<and> tab_exists sample_platform 1"
    by (simp add: push_message_def empty_message_def sample_platform_def)
  have st: "truthy (Some ''loading'') \<and> Some ''loading'' \<noteq> Some ''complete''"
    by (simp add: truthy_def)
  have f: "tab_push one_tab 1 \<noteq> Some True \<and> tab_lasturl one_tab 1 \<noteq> Some True"
    by (simp add: one_tab_def initial_state_def)
  have r: "tab_listeners one_tab 1 = Some [sample_record]"
    by (simp add: one_tab_def)
  note t = C3_push_absorbs_next_transition_and_document_change_clears
    [of push_message sample_platform 1 "Some ''loading''" "''https://example.com/''" one_tab]
  from t h st have 1:
    "tab_listeners (onUpdated sample_platform 1 (Some ''loading'')
         (onMessage sample_platform push_message (Some (1, ''https://example.com/'')) one_tab)) 1
       = tab_listeners one_tab 1"
    "tab_push (onUpdated sample_platform 1 (Some ''loading'')
         (onMessage sample_platform push_message (Some (1, ''https://example.com/'')) one_tab)) 1
       = None"
    by blast+
  from t st f have 2:
    "tab_listeners (onUpdated sample_platform 1 (Some ''loading'') one_tab) 1 = Some []"
    "keys_of (onUpdated sample_platform 1 (Some ''loading'') one_tab) 1 = {}"
    by blast+
  show ?thesis
    using h st f r 1 2 by simp
qed

text \<open>
  C3 as stated fails where it says the flag is consumed by the next status transition: a
  \<^verbatim>\<open>complete\<close> status after the push signal leaves the flag set.
\<close>

theorem C3_counterexample:
  "tab_push (onUpdated sample_platform 1 (Some ''complete'')
      (onMessage sample_platform push_message (Some (1, ''https://example.com/'')) one_tab)) 1
     = Some True"
  by (simp add: onUpdated_def onMessage_def push_message_def empty_message_def truthy_def
      one_tab_def initial_state_def refreshCount_def Let_def)

subsection \<open>C1: deduplication\<close>

text \<open>
  C1 (as amended).  Let two records have equal identity components (cleaned URL, hops, domain,
  code) and let neither be filtered as coming from an extension.  Added one after the other to
  the same tab: with deduplication enabled the second is rejected and the record list is what
  it was after the first, the first having been appended exactly when it was not a duplicate
  itself, and its key is in the tab's key set; with deduplication disabled both are appended,
  in order, and no key is added to the key set.  Record and key are stored in one transition,
  \<^verbatim>\<open>push\<close> before \<^verbatim>\<open>addListenerKey\<close>.
\<close>

theorem C1_second_equal_record_rejected_iff_dedupe_enabled:
  assumes "key_components (new_URL P) r1 = key_components (new_URL P) r2"
    and "\<not> isFromExtension (listener r1) (stack r1)"
    and "\<not> isFromExtension (listener r2) (stack r2)"
  shows "(dedupeEnabled s \<longrightarrow>
            \<not> added P t r2 (after_add P t r1 s)
            \<and> records_of (after_add P t r2 (after_add P t r1 s)) t = records_of (after_add P t r1 s) t
            \<and> records_of (after_add P t r1 s) t
                = (if added P t r1 s then records_of s t @ [r1] else records_of s t)
            \<and> generateListenerKey (new_URL P) r1 \<in> keys_of (after_add P t r1 s) t)
       \<and> (\<not> dedupeEnabled s \<longrightarrow>
            added P t r1 s \<and> added P t r2 (after_add P t r1 s)
            \<and> records_of (after_add P t r2 (after_add P t r1 s)) t = records_of s t @ [r1, r2]
            \<and> keys_of (after_add P t r2 (after_add P t r1 s)) t \<subseteq> keys_of s t)"
proof (intro conjI impI)
  let ?s1 = "after_add P t r1 s"
  have k: "generateListenerKey (new_URL P) r2 = generateListenerKey (new_URL P) r1"
    using assms(1) key_of_components by metis
  {
    assume on: "dedupeEnabled s"
    then have kin: "generateListenerKey (new_URL P) r1 \<in> keys_of ?s1 t"
      using assms(2) addListener_keys_on by blast
    have "tab_listeners ?s1 t \<noteq> None"
      using assms(2) addListener_records(2) by blast
    with on kin k have known: "known_key P t r2 ?s1"
      by (simp add: known_key_def)
    show "\<not> added P t r2 ?s1"
      using known assms(3) addListener_added by blast
    show "records_of (after_add P t r2 ?s1) t = records_of ?s1 t"
      using known assms(3) addListener_records(1) by simp
    show "records_of ?s1 t = (if added P t r1 s then records_of s t @ [r1] else records_of s t)"
      using assms(2) addListener_records(1) [of r1 P t s] addListener_added [of r1 P t s] by simp
    show "generateListenerKey (new_URL P) r1 \<in> keys_of ?s1 t"
      by (rule kin)
  }
  {
    assume off: "\<not> dedupeEnabled s"
    then have nk: "\<not> known_key P t r1 s" "\<not> known_key P t r2 ?s1"
      by (simp_all add: known_key_def)
    show "added P t r1 s"
      using nk(1) assms(2) addListener_added by blast
    show "added P t r2 ?s1"
      using nk(2) assms(3) addListener_added by blast
    show "records_of (after_add P t r2 ?s1) t = records_of s t @ [r1, r2]"
      using nk assms(2,3) addListener_records(1) by simp
    have "keys_of (after_add P t r2 ?s1) t \<subseteq> keys_of ?s1 t"
      using off addListener_keys_off by simp
    also have "\<dots> \<subseteq> keys_of s t"
      using off addListener_keys_off by simp
    finally show "keys_of (after_add P t r2 ?s1) t \<subseteq> keys_of s t" .
  }
qed

theorem C1_witness:
  "key_components (new_URL sample_platform) sample_record
     = key_components (new_URL sample_platform) same_source_record
   \<and> \<not> isFromExtension (listener sample_record) (stack sample_record)
   \<and> \<not> isFromExtension (listener same_source_record) (stack same_source_record)
   \<and> dedupeEnabled initial_state
   \<and> \<not> added sample_platform 1 same_source_record (after_add sample_platform 1 sample_record initial_state)
   \<and> records_of (after_add sample_platform 1 same_source_record
          (after_add sample_platform 1 sample_record initial_state)) 1
       = records_of (after_add sample_platform 1 sample_record initial_state) 1
   \<and> \<not> dedupeEnabled dedupe_off
   \<and> records_of (after_add sample_platform 1 same_source_record
          (after_add sample_platform 1 sample_record dedupe_off)) 1
       = records_of dedupe_off 1 @ [sample_record, same_source_record]"
proof -
  have k: "key_components (new_URL sample_platform) sample_record
     = key_components (new_URL sample_platform) same_source_record"
    by (simp add: key_components_def same_source_record_def)
  have e1: "\<not> isFromExtension (listener sample_record) (stack sample_record)"
    by (simp add: isFromExtension_def EXTENSION_BLACKLIST_def sample_record_def empty_message_def
        or_empty_def)
  have e2: "\<not> isFromExtension (listener same_source_record) (stack same_source_record)"
    using e1 by (simp add: same_source_record_def)
  have d: "dedupeEnabled initial_state" "\<not> dedupeEnabled dedupe_off"
    by (simp_all add: initial_state_def dedupe_off_def)
  show ?thesis
    using k e1 e2 d
      C1_second_equal_record_rejected_iff_dedupe_enabled [OF k e1 e2, of initial_state 1]
      C1_second_equal_record_rejected_iff_dedupe_enabled [OF k e1 e2, of dedupe_off 1]
    by simp
qed

text \<open>
  C1 as stated fails where it says the key of an added record is added to the key set: with
  deduplication disabled the record is appended and the key set stays empty.
\<close>

theorem C1_counterexample:
  "added sample_platform 1 sample_record dedupe_off
   \<and> records_of (after_add sample_platform 1 sample_record dedupe_off) 1 = [sample_record]
   \<and> keys_of (after_add sample_platform 1 sample_record dedupe_off) 1 = {}"
proof -
  have e1: "\<not> isFromExtension (listener sample_record) (stack sample_record)"
    by (simp add: isFromExtension_def EXTENSION_BLACKLIST_def sample_record_def empty_message_def
        or_empty_def)
  show ?thesis
    using e1
    by (simp add: addListener_def isDuplicateListener_def addListenerKey_def push_listener_def
        debouncedSave_def dedupe_off_def initial_state_def records_of_def keys_of_def Let_def)
qed

subsection \<open>Block matching and logging\<close>

text \<open>Block matching reads the three lists and nothing else of the state.\<close>

lemma isListenerBlocked_cong:
  assumes "blockedListeners s' = blockedListeners s" and "blockedUrls s' = blockedUrls s"
    and "compiledRegex s' = compiledRegex s"
  shows "isListenerBlocked P s' l = isListenerBlocked P s l"
  using assms by (simp add: isListenerBlocked_def isListenerMatchedByRegex_def)

lemma addListener_unfold:
  "addListener P t l s =
     (if isFromExtension (listener l) (stack l) then (False, s)
      else if fst (isDuplicateListener P l t (init_tab t s))
      then (False, snd (isDuplicateListener P l t (init_tab t s)))
      else (True, if \<not> isListenerBlocked P (stored P t l s) l
                  then logListener P l (stored P t l s) else stored P t l s))"
  by (simp add: addListener_def init_tab_def stored_def Let_def split: prod.split)

lemma ensure_keys_simps [simp]:
  "trace (ensure_keys t s) = trace s"
  "tab_listeners (ensure_keys t s) = tab_listeners s"
  "dedupeEnabled (ensure_keys t s) = dedupeEnabled s"
  "blockedListeners (ensure_keys t s) = blockedListeners s"
  "blockedUrls (ensure_keys t s) = blockedUrls s"
  "compiledRegex (ensure_keys t s) = compiledRegex s"
  by (simp_all add: ensure_keys_def)

lemma isDuplicateListener_simps [simp]:
  "trace (snd (isDuplicateListener P l t s)) = trace s"
  "blockedListeners (snd (isDuplicateListener P l t s)) = blockedListeners s"
  "blockedUrls (snd (isDuplicateListener P l t s)) = blockedUrls s"
  "compiledRegex (snd (isDuplicateListener P l t s)) = compiledRegex s"
  by (simp_all add: isDuplicateListener_def Let_def)

lemma addListenerKey_simps [simp]:
  "trace (addListenerKey P l t s) = trace s"
  "blockedListeners (addListenerKey P l t s) = blockedListeners s"
  "blockedUrls (addListenerKey P l t s) = blockedUrls s"
  "compiledRegex (addListenerKey P l t s) = compiledRegex s"
  by (simp_all add: addListenerKey_def Let_def)

lemma push_listener_simps [simp]:
  "trace (push_listener t l s) = trace s"
  "blockedListeners (push_listener t l s) = blockedListeners s"
  "blockedUrls (push_listener t l s) = blockedUrls s"
  "compiledRegex (push_listener t l s) = compiledRegex s"
  by (simp_all add: push_listener_def)


lemma init_tab_simps [simp]:
  "trace (init_tab t s) = trace s"
  "dedupeEnabled (init_tab t s) = dedupeEnabled s"
  "blockedListeners (init_tab t s) = blockedListeners s"
  "blockedUrls (init_tab t s) = blockedUrls s"
  "compiledRegex (init_tab t s) = compiledRegex s"
  by (simp_all add: init_tab_def)

lemma stored_simps [simp]:
  "trace (stored P t l s) = trace s @ [DebouncedSave]"
  "blockedListeners (stored P t l s) = blockedListeners s"
  "blockedUrls (stored P t l s) = blockedUrls s"
  "compiledRegex (stored P t l s) = compiledRegex s"
  by (simp_all add: stored_def debouncedSave_def)

lemma isListenerBlocked_stored [simp]:
  "isListenerBlocked P (stored P t l s) l' = isListenerBlocked P s l'"
  by (rule isListenerBlocked_cong) simp_all

lemma addListener_lists [simp]:
  "blockedListeners (after_add P t l s) = blockedListeners s"
  "blockedUrls (after_add P t l s) = blockedUrls s"
  "compiledRegex (after_add P t l s) = compiledRegex s"
  by (simp_all add: addListener_unfold logListener_def)

lemma with_rules_commute:
  "init_tab t (with_rules bl bu cr s) = with_rules bl bu cr (init_tab t s)"
  "fst (isDuplicateListener P l t (with_rules bl bu cr s)) = fst (isDuplicateListener P l t s)"
  "snd (isDuplicateListener P l t (with_rules bl bu cr s)) = with_rules bl bu cr (snd (isDuplicateListener P l t s))"
  "push_listener t l (with_rules bl bu cr s) = with_rules bl bu cr (push_listener t l s)"
  "addListenerKey P l t (with_rules bl bu cr s) = with_rules bl bu cr (addListenerKey P l t s)"
  "tab_listeners (with_rules bl bu cr s) = tab_listeners s"
  "tab_listener_keys (with_rules bl bu cr s) = tab_listener_keys s"
  by (simp_all add: with_rules_def init_tab_def isDuplicateListener_def ensure_keys_def keys_of_def
      records_of_def push_listener_def addListenerKey_def Let_def)

lemma stored_store [simp]:
  "tab_listeners (stored P t l (with_rules bl bu cr s)) = tab_listeners (stored P t l s)"
  "tab_listener_keys (stored P t l (with_rules bl bu cr s)) = tab_listener_keys (stored P t l s)"
  by (simp_all add: stored_def with_rules_commute debouncedSave_def)

lemma addListener_store_independent_of_rules:
  "added P t l (with_rules bl bu cr s) = added P t l s"
  "tab_listeners (after_add P t l (with_rules bl bu cr s)) = tab_listeners (after_add P t l s)"
  "tab_listener_keys (after_add P t l (with_rules bl bu cr s)) = tab_listener_keys (after_add P t l s)"
  by (simp_all add: addListener_unfold with_rules_commute)

lemma addListener_trace:
  "trace (after_add P t l s) =
     trace s @ (if added P t l s
                then DebouncedSave #
                     (if \<not> isListenerBlocked P s l \<and> log_url P \<noteq> [] then [HttpPost (log_url P) l] else [])
                else [])"
  by (simp add: addListener_unfold logListener_def)

lemma refreshCount_badge:
  assumes "selectedId s > 0" and "tab_exists P (selectedId s)"
  shows "trace (refreshCount P s) =
           trace s @ [BadgeText (selectedId s)
                        (length (filter (\<lambda>l. \<not> isListenerBlocked P s l) (records_of s (selectedId s))))]"
  using assms
  by (simp add: refreshCount_def activeCount_def records_of_def split: option.split)

lemma first_clean_url_nonempty: "first_clean_url parse ms = Some u \<Longrightarrow> u \<noteq> []"
  by (induction ms) (auto simp: Let_def split: if_splits)

lemma extract_from_lines_nonempty: "extract_from_lines parse ls = Some u \<Longrightarrow> u \<noteq> []"
  by (induction ls) (auto split: option.splits dest: first_clean_url_nonempty)

lemma extractJsUrlFromStack_truthy:
  "extractJsUrlFromStack parse st full = Some u \<Longrightarrow> truthy (Some u)"
  by (simp add: extractJsUrlFromStack_def truthy_def extract_from_lines_nonempty)

lemma test_patterns_iff: "test_patterns cs code \<longleftrightarrow> (\<exists>t \<in> snd ` set cs. t code)"
  by (induction cs code rule: test_patterns.induct) auto

lemma compile_patterns_set:
  "set (compile_patterns re ps) = {(p, t). p \<in> set ps \<and> re p = Some t}"
  by (induction ps) (auto split: option.splits)



lemma isListenerBlocked_iff:
  "isListenerBlocked P s l \<longleftrightarrow>
     includes_opt (blockedListeners s) (listener l)
     \<or> (\<exists>u. extractJsUrlFromStack (new_URL P) (stack l) (fullstack l) = Some u \<and> u \<in> set (blockedUrls s))
     \<or> (truthy (listener l) \<and> (\<exists>t \<in> snd ` set (compiledRegex s). t (or_empty (listener l))))"
proof -
  let ?jsUrl = "extractJsUrlFromStack (new_URL P) (stack l) (fullstack l)"
  have u: "(truthy ?jsUrl \<and> includes_opt (blockedUrls s) ?jsUrl) \<longleftrightarrow> (\<exists>u. ?jsUrl = Some u \<and> u \<in> set (blockedUrls s))"
    using extractJsUrlFromStack_truthy [of "new_URL P" "stack l" "fullstack l"]
    by (cases ?jsUrl) (simp_all add: includes_opt_def truthy_def)
  have r: "isListenerMatchedByRegex s l \<longleftrightarrow>
      (truthy (listener l) \<and> (\<exists>t \<in> snd ` set (compiledRegex s). t (or_empty (listener l))))"
    by (auto simp: isListenerMatchedByRegex_def test_patterns_iff)
  show ?thesis
    unfolding isListenerBlocked_def Let_def using u r by auto
qed





lemma compileRegexPatterns_simps [simp]:
  "compiledRegex (compileRegexPatterns P s) = compile_patterns (new_RegExp P) (blockedRegex s)"
  "trace (compileRegexPatterns P s) = trace s @ compile_warnings (new_RegExp P) (blockedRegex s)"
  "blockedListeners (compileRegexPatterns P s) = blockedListeners s"
  "blockedUrls (compileRegexPatterns P s) = blockedUrls s"
  "blockedRegex (compileRegexPatterns P s) = blockedRegex s"
  by (simp_all add: compileRegexPatterns_def)

subsection \<open>C10: blocking, logging and the badge\<close>

text \<open>
  C10 (as amended).  Whatever the block rules are, \<^verbatim>\<open>addListener\<close> gives the same answer and
  the same record lists and key sets: a blocked record is stored like any other.  Its effects
  are a save request when the record was added, followed by one HTTP POST of the record
  exactly when the record was added, is not blocked and a log URL is stored.  When the selected
  tab exists, \<^verbatim>\<open>refreshCount\<close> sets that tab's badge to the number of its stored records that are
  not blocked.
\<close>

theorem C10_blocking_affects_logging_and_badge_only:
  "added P t l (with_rules bl bu cr s) = added P t l s
   \<and> tab_listeners (after_add P t l (with_rules bl bu cr s)) = tab_listeners (after_add P t l s)
   \<and> tab_listener_keys (after_add P t l (with_rules bl bu cr s)) = tab_listener_keys (after_add P t l s)
   \<and> trace (after_add P t l s) =
       trace s @ (if added P t l s
                  then DebouncedSave #
                       (if \<not> isListenerBlocked P s l \<and> log_url P \<noteq> []
                        then [HttpPost (log_url P) l] else [])
                  else [])
   \<and> (selectedId s > 0 \<and> tab_exists P (selectedId s) \<longrightarrow>
        trace (refreshCount P s) =
          trace s @ [BadgeText (selectedId s)
                       (length (filter (\<lambda>l. \<not> isListenerBlocked P s l) (records_of s (selectedId s))))])"
  using addListener_store_independent_of_rules [of P t l bl bu cr s]
    addListener_trace [of P t l s] refreshCount_badge [of s P]
  by simp

theorem C10_witness:
  "0 < selectedId two_tabs \<and> tab_exists sample_platform (selectedId two_tabs)
   \<and> trace (refreshCount sample_platform two_tabs) = [BadgeText 1 1]
   \<and> trace (refreshCount sample_platform (with_rules [''function(e){console.log(e)}''] [] [] two_tabs))
       = [BadgeText 1 0]
   \<and> tab_listeners (after_add sample_platform 3 sample_record
          (with_rules [''function(e){console.log(e)}''] [] [] two_tabs))
       = tab_listeners (after_add sample_platform 3 sample_record two_tabs)"
proof -
  let ?b = "with_rules [''function(e){console.log(e)}''] [] [] two_tabs"
  have h: "0 < selectedId two_tabs \<and> tab_exists sample_platform (selectedId two_tabs)"
    by (simp add: two_tabs_def initial_state_def sample_platform_def)
  have hb: "0 < selectedId ?b \<and> tab_exists sample_platform (selectedId ?b)"
    by (simp add: two_tabs_def initial_state_def sample_platform_def with_rules_def)
  have n: "\<not> isListenerBlocked sample_platform two_tabs sample_record"
    by (simp add: isListenerBlocked_iff includes_opt_def two_tabs_def initial_state_def
        sample_record_def empty_message_def)
  have b: "isListenerBlocked sample_platform ?b sample_record"
    by (simp add: isListenerBlocked_iff includes_opt_def with_rules_def sample_record_def
        empty_message_def)
  have v: "selectedId two_tabs = 1" "records_of two_tabs 1 = [sample_record]" "trace two_tabs = []"
    "selectedId ?b = 1" "records_of ?b 1 = [sample_record]" "trace ?b = []"
    by (simp_all add: two_tabs_def initial_state_def records_of_def with_rules_def)
  note t1 = C10_blocking_affects_logging_and_badge_only
    [of sample_platform 3 sample_record "[''function(e){console.log(e)}'']" "[]" "[]" two_tabs]
  note t2 = C10_blocking_affects_logging_and_badge_only
    [of sample_platform 3 sample_record "[]" "[]" "[]" ?b]
  from t1 h have 1: "trace (refreshCount sample_platform two_tabs) =
          trace two_tabs @ [BadgeText (selectedId two_tabs)
                       (length (filter (\<lambda>l. \<not> isListenerBlocked sample_platform two_tabs l)
                          (records_of two_tabs (selectedId two_tabs))))]"
    by blast
  from t2 hb have 2: "trace (refreshCount sample_platform ?b) =
          trace ?b @ [BadgeText (selectedId ?b)
                       (length (filter (\<lambda>l. \<not> isListenerBlocked sample_platform ?b l)
                          (records_of ?b (selectedId ?b))))]"
    by blast
  from t1 have 3: "tab_listeners (after_add sample_platform 3 sample_record ?b)
       = tab_listeners (after_add sample_platform 3 sample_record two_tabs)"
    by blast
  show ?thesis
    using h 1 2 3 n b v by simp
qed

text \<open>
  C10 as stated fails where it says the POST is issued whenever the record was newly added and
  is not blocked: with no log URL stored (the default) nothing is sent.
\<close>

theorem C10_counterexample:
  "added sample_platform 1 sample_record initial_state
   \<and> \<not> isListenerBlocked sample_platform initial_state sample_record
   \<and> trace (after_add sample_platform 1 sample_record initial_state) = [DebouncedSave]"
proof -
  have e: "\<not> isFromExtension (listener sample_record) (stack sample_record)"
    by (simp add: isFromExtension_def EXTENSION_BLACKLIST_def sample_record_def empty_message_def
        or_empty_def)
  have a: "added sample_platform 1 sample_record initial_state"
    using e by (simp add: addListener_added known_key_def initial_state_def)
  have n: "\<not> isListenerBlocked sample_platform initial_state sample_record"
    by (simp add: isListenerBlocked_iff includes_opt_def initial_state_def
        sample_record_def empty_message_def)
  have l: "log_url sample_platform = []" "trace initial_state = []"
    by (simp_all add: sample_platform_def initial_state_def)
  show ?thesis
    using a n l by (simp add: addListener_trace)
qed

subsection \<open>C5: when a record is blocked\<close>




subsection \<open>The first URL of a stack\<close>





















subsection \<open>C2: the identity key\<close>



subsection \<open>C8: export and import of the block lists\<close>

text \<open>
  C8.  For each of the three block lists, importing the file that an export wrote sets the
  list, in whatever state the import runs, to the exported list: the same entries in the same
  order, hence the same set of rules; the import reports their number and saves the list.  For
  the regex list the compiled patterns are those of the exported list.
\<close>

theorem C8_export_then_import_restores_the_list:
  "importBlockedUrls (Json (snd (exportBlockedUrls d st))) st'
     = (Inr (length (this_blockedUrls st)), saveBlocklists (st'\<lparr>this_blockedUrls := this_blockedUrls st\<rparr>))
   \<and> set (this_blockedUrls (snd (importBlockedUrls (Json (snd (exportBlockedUrls d st))) st')))
       = set (this_blockedUrls st)
   \<and> importBlockedListeners (Json (snd (exportBlockedListeners d st))) st'
     = (Inr (length (this_blockedListeners st)),
        saveBlocklists (st'\<lparr>this_blockedListeners := this_blockedListeners st\<rparr>))
   \<and> set (this_blockedListeners (snd (importBlockedListeners (Json (snd (exportBlockedListeners d st))) st')))
       = set (this_blockedListeners st)
   \<and> importBlockedRegex re (Json (snd (exportBlockedRegex d st))) st'
     = (Inr (length (this_blockedRegex st)), saveRegexPatterns re (this_blockedRegex st) st')
   \<and> set (this_blockedRegex (snd (importBlockedRegex re (Json (snd (exportBlockedRegex d st))) st')))
       = set (this_blockedRegex st)
   \<and> this_compiledRegex (snd (importBlockedRegex re (Json (snd (exportBlockedRegex d st))) st'))
       = compile_patterns re (this_blockedRegex st)"
  by (simp add: importBlockedUrls_def exportBlockedUrls_def importBlockedListeners_def
      exportBlockedListeners_def importBlockedRegex_def exportBlockedRegex_def array_field_def
      saveBlocklists_def saveRegexPatterns_def Let_def)

subsection \<open>C4: the hook and the original registration\<close>

text \<open>
  C4 (the code at a failing input).  For a \<^verbatim>\<open>message\<close> listener that has no \<^verbatim>\<open>toString\<close>, the
  hook posts nothing and ends with a TypeError: the unguarded \<^verbatim>\<open>listener.toString()\<close> that
  looks for \<^verbatim>\<open>event.dispatch.apply\<close> throws, and the original registration function is not
  reached.
\<close>

theorem C4_hook_throws_for_listener_without_toString:
  "hooked_addEventListener pg ''message'' null_prototype_listener useCapture = ([], Threw JsTypeError)"
  by (simp add: hooked_addEventListener_def isExtensionListener_def page_isFromExtension_def
      call_toString_def js_truthy_def get_prop_def null_prototype_listener_def EXTENSION_MARKER_def)

text \<open>
  A second input with the same end: a frozen bound function, on which the strict assignment
  of the label throws.  Whenever the hook does return, it has delegated with the arguments it
  was called with; for every event type other than \<^verbatim>\<open>message\<close> it does so at once.
\<close>

lemma hook_throws_for_frozen_bound_function:
  "0 < stack_depth pg \<Longrightarrow>
   hooked_addEventListener pg ''message'' frozen_bound_listener useCapture = ([], Threw JsTypeError)"
proof -
  assume "0 < stack_depth pg"
  then obtain d where d: "stack_depth pg = Suc d"
    by (cases "stack_depth pg") auto
  have c: "c_wrapper frozen_bound_listener = None"
    by (simp add: c_wrapper_def function_source_def frozen_bound_listener_def rests_after_def)
  have u: "unwrap (Suc d) frozen_bound_listener (0, []) = ([], Threw JsTypeError)"
    by (simp add: c label_bound_def)
      (simp add: frozen_bound_listener_def js_truthy_def get_prop_def set_trackername_def)
  have pre: "\<not> isExtensionListener frozen_bound_listener" "js_truthy frozen_bound_listener"
    "is_function frozen_bound_listener"
    "call_toString frozen_bound_listener = Inr ''function () { [native code] }''"
    by (simp_all add: isExtensionListener_def page_isFromExtension_def extension_blacklist_def
        frozen_bound_listener_def call_toString_def js_truthy_def get_prop_def
        is_function_def EXTENSION_MARKER_def)
  show ?thesis
    by (simp add: hooked_addEventListener_def pre d u del: unwrap.simps)
qed

lemma hook_keeps_arguments:
  "hooked_addEventListener pg type lst useCapture = (out, Done r) \<Longrightarrow> r = Delegated type lst useCapture"
  by (auto simp: hooked_addEventListener_def Let_def
      split: if_splits sum.splits prod.splits outcome.splits)

lemma hook_delegates_other_events:
  "type \<noteq> ''message'' \<Longrightarrow>
   hooked_addEventListener pg type lst useCapture = ([], Done (Delegated type lst useCapture))"
  by (simp add: hooked_addEventListener_def)

subsection \<open>Adding block rules\<close>

text \<open>
  Adding entries to the three block lists never unblocks a record: a record blocked under the
  compiled lists of a state is blocked under those of any state whose lists contain them.
\<close>

lemma blocked_is_monotonic_under_rule_addition:
  assumes "set (blockedListeners s) \<subseteq> set (blockedListeners s')"
    and "set (blockedUrls s) \<subseteq> set (blockedUrls s')"
    and "set (blockedRegex s) \<subseteq> set (blockedRegex s')"
    and "isListenerBlocked P (compileRegexPatterns P s) l"
  shows "isListenerBlocked P (compileRegexPatterns P s') l"
proof -
  let ?u = "extractJsUrlFromStack (new_URL P) (stack l) (fullstack l)"
  have "set (compile_patterns (new_RegExp P) (blockedRegex s))
          \<subseteq> set (compile_patterns (new_RegExp P) (blockedRegex s'))"
    using assms(3) by (auto simp: compile_patterns_set)
  then have r: "snd ` set (compile_patterns (new_RegExp P) (blockedRegex s))
          \<subseteq> snd ` set (compile_patterns (new_RegExp P) (blockedRegex s'))"
    by (rule image_mono)
  from assms(4) consider
      (code) "includes_opt (blockedListeners s) (listener l)"
    | (url) u where "?u = Some u" "u \<in> set (blockedUrls s)"
    | (pattern) t where "truthy (listener l)"
        "t \<in> snd ` set (compile_patterns (new_RegExp P) (blockedRegex s))" "t (or_empty (listener l))"
    unfolding isListenerBlocked_iff by auto
  then show ?thesis
  proof cases
    case code
    then have "includes_opt (blockedListeners s') (listener l)"
      using assms(1) by (auto simp: includes_opt_def split: option.splits)
    then show ?thesis
      unfolding isListenerBlocked_iff by simp
  next
    case url
    then have "?u = Some u \<and> u \<in> set (blockedUrls s')"
      using assms(2) by auto
    then show ?thesis
      unfolding isListenerBlocked_iff by auto
  next
    case pattern
    then have "t \<in> snd ` set (compile_patterns (new_RegExp P) (blockedRegex s'))"
      using r by (rule_tac subsetD)
    with pattern(1,3) show ?thesis
      unfolding isListenerBlocked_iff by auto
  qed
qed

end
